theory Spec2Isabelle
  imports Complex_Main "HOL-Library.Sublist"
begin

section \<open>Strings\<close>

text \<open>
  A JavaScript string is modelled as a HOL \<open>string\<close>: a list of code units, here the
  units 0..255. \<open>length\<close> is therefore the \<open>.length\<close> of the source for every
  string over that range. White space is the part of the ECMAScript \<open>WhiteSpace\<close> and
  \<open>LineTerminator\<close> sets that lies in the range; \<open>\s\<close> of a regular expression and
  \<open>String.prototype.trim\<close> use the same set.
\<close>

definition isLineTerminator :: "char \<Rightarrow> bool" where
  "isLineTerminator c = (c \<in> set [CHR 0x0A, CHR 0x0D])"

definition isWhiteSpace :: "char \<Rightarrow> bool" where
  "isWhiteSpace c =
     (c \<in> set [CHR 0x09, CHR 0x0A, CHR 0x0B, CHR 0x0C, CHR 0x0D, CHR 0x20, CHR 0xA0])"

definition isDigit :: "char \<Rightarrow> bool" where
  "isDigit c = (c \<in> set ''0123456789'')"

definition isLower :: "char \<Rightarrow> bool" where
  "isLower c = (c \<in> set ''abcdefghijklmnopqrstuvwxyz'')"

definition isUpper :: "char \<Rightarrow> bool" where
  "isUpper c = (c \<in> set ''ABCDEFGHIJKLMNOPQRSTUVWXYZ'')"

definition isAlpha :: "char \<Rightarrow> bool" where
  "isAlpha c = (isLower c \<or> isUpper c)"

definition isAlnum :: "char \<Rightarrow> bool" where
  "isAlnum c = (isAlpha c \<or> isDigit c)"

text \<open>\<open>s.trim()\<close>\<close>

definition trim :: "string \<Rightarrow> string" where
  "trim s = rev (dropWhile isWhiteSpace (rev (dropWhile isWhiteSpace s)))"

text \<open>\<open>s.startsWith(p)\<close> and \<open>s.includes(t)\<close>\<close>

definition startsWith :: "string \<Rightarrow> string \<Rightarrow> bool" where
  "startsWith s p = prefix p s"

fun str_includes :: "string \<Rightarrow> string \<Rightarrow> bool" where
  "str_includes [] t = (t = [])"
| "str_includes (c # s) t = (prefix t (c # s) \<or> str_includes s t)"

text \<open>\<open>s.replace(pat, rep)\<close> for a string pattern: the first occurrence only.\<close>

fun replaceFirst :: "string \<Rightarrow> string \<Rightarrow> string \<Rightarrow> string" where
  "replaceFirst [] pat rep = (if pat = [] then rep else [])"
| "replaceFirst (c # s) pat rep =
     (if prefix pat (c # s) then rep @ drop (length pat) (c # s)
      else c # replaceFirst s pat rep)"

text \<open>
  \<open>s.toUpperCase()\<close> on the code units of the range: the letters a..z, the Latin-1
  letters from a-grave to thorn (the division sign between them is no letter), and the
  sharp s, which becomes two letters. The micro sign and y-diaeresis are left as they
  are: their upper-case forms lie outside the range.
\<close>

definition toUpperChar :: "char \<Rightarrow> string" where
  "toUpperChar c =
     (case map_of (zip ''abcdefghijklmnopqrstuvwxyz'' ''ABCDEFGHIJKLMNOPQRSTUVWXYZ'') c of
        Some u \<Rightarrow> [u]
      | None \<Rightarrow>
          if c = CHR 0xDF then ''SS''
          else if (0xE0::nat) \<le> of_char c \<and> of_char c \<le> (0xFE::nat) \<and> c \<noteq> CHR 0xF7
          then [char_of (of_char c - (0x20::nat))]
          else [c])"

definition toUpperCase :: "string \<Rightarrow> string" where
  "toUpperCase s = concat (map toUpperChar s)"

text \<open>\<open>typeof value === 'string' && value.trim() !== ''\<close>; \<open>None\<close> is \<open>null\<close>.\<close>

definition isValidNonEmptyString :: "string option \<Rightarrow> bool" where
  "isValidNonEmptyString v = (case v of None \<Rightarrow> False | Some s \<Rightarrow> trim s \<noteq> [])"

text \<open>\<open>url.replace(/^https?:\/\//, '')\<close>\<close>

definition stripScheme :: "string \<Rightarrow> string" where
  "stripScheme s =
     (if prefix ''https://'' s then drop 8 s
      else if prefix ''http://'' s then drop 7 s
      else s)"

text \<open>
  \<open>.replace(/\/.*$/, '')\<close>: the match starts at the leftmost slash from which \<open>.*\<close>
  reaches the end of the string, and \<open>.\<close> matches no line terminator.
\<close>

fun stripPath :: "string \<Rightarrow> string" where
  "stripPath [] = []"
| "stripPath (c # s) =
     (if c = CHR ''/'' \<and> \<not> list_ex isLineTerminator s then [] else c # stripPath s)"

definition cleanURLDomain :: "string option \<Rightarrow> string" where
  "cleanURLDomain url =
     (case url of
        None \<Rightarrow> []
      | Some u \<Rightarrow> if \<not> isValidNonEmptyString url then [] else trim (stripPath (stripScheme u)))"

text \<open>
  \<open>sanitizeHTML\<close> writes the string into a text node and reads the element's
  \<open>innerHTML\<close> back: the HTML serialisation escapes the ampersand, the two angle brackets
  and the no-break space, and nothing else.
\<close>

definition escapeChar :: "char \<Rightarrow> string" where
  "escapeChar c =
     (if c = CHR ''&'' then ''&amp;''
      else if c = CHR ''<'' then ''&lt;''
      else if c = CHR ''>'' then ''&gt;''
      else if c = CHR 0xA0 then ''&nbsp;''
      else [c])"

definition sanitizeHTML :: "string option \<Rightarrow> string" where
  "sanitizeHTML str =
     (case str of
        None \<Rightarrow> []
      | Some s \<Rightarrow> if \<not> isValidNonEmptyString str then [] else concat (map escapeChar s))"

text \<open>
  \<open>CONFIG.URL_VALIDATION_REGEX.test(s)\<close> for \<open>/^[a-zA-Z0-9.-]+\.[a-zA-Z]{2,}$/\<close>.
  The last group holds no dot, so the dot before it is the last dot of the string.
\<close>

definition isHostChar :: "char \<Rightarrow> bool" where
  "isHostChar c = (isAlnum c \<or> c = CHR ''.'' \<or> c = CHR ''-'')"

definition URL_VALIDATION_REGEX_test :: "string \<Rightarrow> bool" where
  "URL_VALIDATION_REGEX_test s =
     (let tld = rev (takeWhile (\<lambda>c. c \<noteq> CHR ''.'') (rev s));
          front = take (length s - length tld) s
      in front \<noteq> [] \<and> butlast front \<noteq> [] \<and> list_all isHostChar (butlast front) \<and>
         2 \<le> length tld \<and> list_all isAlpha tld)"

definition isValidURL :: "string option \<Rightarrow> bool" where
  "isValidURL url =
     (if \<not> isValidNonEmptyString url then False
      else let cleanUrl = cleanURLDomain url
           in cleanUrl \<noteq> [] \<and> URL_VALIDATION_REGEX_test cleanUrl)"

section \<open>The filter catalogue\<close>

datatype filterType = SearchLang | InterfaceLang | Region | Time | Site

text \<open>
  One object per category in the source (\<open>currentFilters\<close>, \<open>persistenceSettings\<close>),
  with one property per category, in the source's order.
\<close>

record 'a perType =
  searchLang :: 'a
  interfaceLang :: 'a
  region :: 'a
  site :: 'a
  time :: 'a

fun getFilter :: "'a perType \<Rightarrow> filterType \<Rightarrow> 'a" where
  "getFilter obj SearchLang = searchLang obj"
| "getFilter obj InterfaceLang = interfaceLang obj"
| "getFilter obj Region = region obj"
| "getFilter obj Site = site obj"
| "getFilter obj Time = time obj"

fun setFilter :: "'a perType \<Rightarrow> filterType \<Rightarrow> 'a \<Rightarrow> 'a perType" where
  "setFilter obj SearchLang v = obj\<lparr>searchLang := v\<rparr>"
| "setFilter obj InterfaceLang v = obj\<lparr>interfaceLang := v\<rparr>"
| "setFilter obj Region v = obj\<lparr>region := v\<rparr>"
| "setFilter obj Site v = obj\<lparr>site := v\<rparr>"
| "setFilter obj Time v = obj\<lparr>time := v\<rparr>"

text \<open>
  A filter definition. A property the source's object literal does not have is
  \<open>None\<close> (\<open>undefined\<close>), and so is \<open>googleLang: null\<close>: both are falsy and equal no
  string. The emoji icons and the descriptions of the language and region entries are
  presentation and are left out.
\<close>

record filterData =
  name :: string
  short :: string
  googleLang :: "string option"
  googleRegion :: "string option"
  param :: "string option"
  query :: "string option"
  domain :: "string option"
  icon :: "string option"

definition entry :: "string \<Rightarrow> string \<Rightarrow> filterData" where
  "entry n s = \<lparr>name = n, short = s, googleLang = None, googleRegion = None, param = None,
                 query = None, domain = None, icon = None\<rparr>"

definition siteEntry :: "string \<Rightarrow> string \<Rightarrow> string \<Rightarrow> string \<Rightarrow> string \<Rightarrow> filterData" where
  "siteEntry n s q d i = (entry n s)\<lparr>query := Some q, domain := Some d, icon := Some i\<rparr>"

definition searchLangFilters :: "(string \<times> filterData) list" where
  "searchLangFilters =
     [(''all'', entry ''All Languages'' ''ALL''),
      (''tr'', entry ''Turkish Only'' ''TR''),
      (''en'', entry ''English Only'' ''EN'')]"

definition interfaceLangFilters :: "(string \<times> filterData) list" where
  "interfaceLangFilters =
     [(''auto'', entry ''Auto Detect'' ''AUTO''),
      (''tr'', (entry ''Turkish UI'' ''TR'')\<lparr>googleLang := Some ''tr''\<rparr>),
      (''en'', (entry ''English UI'' ''EN'')\<lparr>googleLang := Some ''en''\<rparr>)]"

definition regionFilters :: "(string \<times> filterData) list" where
  "regionFilters =
     [(''auto'', entry ''Auto Detect'' ''AUTO''),
      (''tr'', (entry ''Turkey'' ''TR'')\<lparr>googleRegion := Some ''TR''\<rparr>),
      (''us'', (entry ''United States'' ''US'')\<lparr>googleRegion := Some ''US''\<rparr>)]"

definition timeFilters :: "(string \<times> filterData) list" where
  "timeFilters =
     [(''all'', (entry ''All Time'' ''ALL'')\<lparr>param := Some ''''\<rparr>),
      (''day'', (entry ''Today'' ''TODAY'')\<lparr>param := Some ''d''\<rparr>),
      (''week'', (entry ''This Week'' ''WEEK'')\<lparr>param := Some ''w''\<rparr>),
      (''month'', (entry ''This Month'' ''MONTH'')\<lparr>param := Some ''m''\<rparr>),
      (''year'', (entry ''This Year'' ''YEAR'')\<lparr>param := Some ''y''\<rparr>),
      (''2year'', (entry ''Last 2 Years'' ''2 YEARS'')\<lparr>param := Some ''custom:2y''\<rparr>)]"

text \<open>
  The built-in sites. The display name and label of the third entry hold two letters
  outside the range of code units modelled here (s with cedilla, dotted capital I); they
  are written with their base letters. No function compares these two fields.
\<close>

definition defaultSiteFilters :: "(string \<times> filterData) list" where
  "defaultSiteFilters =
     [(''reddit'', siteEntry ''Reddit'' ''REDDIT'' ''site:reddit.com'' ''reddit.com''
         ''https://reddit.com/favicon.ico''),
      (''github'', siteEntry ''GitHub'' ''GITHUB'' ''site:github.com'' ''github.com''
         ''https://github.com/favicon.ico''),
      (''eksisozluk'', siteEntry (''Eksi S'' @ [CHR 0xF6] @ ''zl'' @ [CHR 0xFC] @ ''k'') ''EKSI''
         ''site:eksisozluk.com'' ''eksisozluk.com'' ''https://eksisozluk.com/favicon.ico''),
      (''donanimhaber'', siteEntry ''DONANIMHABER'' ''DH'' ''site:forum.donanimhaber.com''
         ''forum.donanimhaber.com'' ''https://donanimhaber.com/favicon.ico'')]"

definition DEFAULT_SITES :: "string list" where
  "DEFAULT_SITES = [''reddit'', ''github'', ''eksisozluk'', ''donanimhaber'']"

definition MAX_CUSTOM_SITES :: int where
  "MAX_CUSTOM_SITES = 50"

definition MAX_SITE_NAME_LENGTH :: nat where
  "MAX_SITE_NAME_LENGTH = 20"

text \<open>
  \<open>filters[filterType]\<close>: four tables are constant, \<open>filters.site\<close> is the one the
  program changes, so it is an argument. A table is an association list in insertion
  order, the order of \<open>Object.entries\<close> for keys that are not array indices.
\<close>

fun filters :: "(string \<times> filterData) list \<Rightarrow> filterType \<Rightarrow> (string \<times> filterData) list" where
  "filters sites SearchLang = searchLangFilters"
| "filters sites InterfaceLang = interfaceLangFilters"
| "filters sites Region = regionFilters"
| "filters sites Time = timeFilters"
| "filters sites Site = sites"

text \<open>
  \<open>table[key]\<close> on an object literal also finds the properties inherited from
  \<open>Object.prototype\<close>; all of them are truthy objects without the properties of a filter
  definition. \<open>Undefined\<close> is the result for any other key.
\<close>

datatype 'a property = Own 'a | Inherited | Undefined

definition objectPrototypeKeys :: "string list" where
  "objectPrototypeKeys =
     [''constructor'', ''hasOwnProperty'', ''isPrototypeOf'', ''propertyIsEnumerable'',
      ''toLocaleString'', ''toString'', ''valueOf'', ''__defineGetter__'',
      ''__defineSetter__'', ''__lookupGetter__'', ''__lookupSetter__'', ''__proto__'']"

definition getProperty :: "(string \<times> 'a) list \<Rightarrow> string \<Rightarrow> 'a property" where
  "getProperty table key =
     (case map_of table key of
        Some d \<Rightarrow> Own d
      | None \<Rightarrow> if key \<in> set objectPrototypeKeys then Inherited else Undefined)"

text \<open>
  \<open>.name\<close> of an inherited property, as a template literal prints it: the constructor is
  the function \<open>Object\<close>, \<open>__proto__\<close> is the prototype object (no name), each of the
  others is a function named as its key.
\<close>

definition inheritedName :: "string \<Rightarrow> string" where
  "inheritedName key =
     (if key = ''constructor'' then ''Object''
      else if key = ''__proto__'' then ''undefined''
      else key)"

text \<open>\<open>Object.entries(table).find(([, data]) => P(data))?.[0]\<close>\<close>

definition findKey :: "(string \<times> 'a) list \<Rightarrow> ('a \<Rightarrow> bool) \<Rightarrow> string option" where
  "findKey table P = map_option fst (List.find (\<lambda>kd. P (snd kd)) table)"

definition defaultValue :: "filterType \<Rightarrow> string" where
  "defaultValue filterType =
     (if filterType = InterfaceLang \<or> filterType = Region then ''auto'' else ''all'')"

definition typeName :: "filterType \<Rightarrow> string" where
  "typeName filterType =
     (case filterType of
        SearchLang \<Rightarrow> ''searchLang'' | InterfaceLang \<Rightarrow> ''interfaceLang''
      | Region \<Rightarrow> ''region'' | Time \<Rightarrow> ''time'' | Site \<Rightarrow> ''site'')"

definition capitalize :: "string \<Rightarrow> string" where
  "capitalize s = toUpperCase (take 1 s) @ drop 1 s"

definition getStorageKey :: "filterType \<Rightarrow> string" where
  "getStorageKey filterType = ''googleSearch'' @ capitalize (typeName filterType)"

definition getPersistStorageKey :: "filterType \<Rightarrow> string" where
  "getPersistStorageKey filterType = ''googleSearchPersist'' @ capitalize (typeName filterType)"

definition getFilterName :: "filterType \<Rightarrow> string" where
  "getFilterName filterType =
     (case filterType of
        SearchLang \<Rightarrow> ''Results Language'' | InterfaceLang \<Rightarrow> ''Interface Language''
      | Region \<Rightarrow> ''Geographic Region'' | Site \<Rightarrow> ''Site Filter'' | Time \<Rightarrow> ''Time Filter'')"

section \<open>Addresses\<close>

text \<open>
  An address is its path and its decoded query parameters, in order
  (\<open>URLSearchParams\<close>); serialising and parsing an address again gives the same list. The
  raw query string \<open>window.location.search\<close>, which \<open>isSearchPage\<close> reads, is a field of
  its own.
\<close>

record url =
  pathname :: string
  searchParams :: "(string \<times> string) list"

record location =
  href :: url
  search :: string

text \<open>\<open>searchParams.get(p) || ''\<close>\<close>

definition getParam :: "(string \<times> string) list \<Rightarrow> string \<Rightarrow> string" where
  "getParam ps p = (case map_of ps p of None \<Rightarrow> [] | Some v \<Rightarrow> v)"

text \<open>
  \<open>searchParams.set(p, v)\<close>: the first pair of that name takes the value and the later
  ones are removed; without such a pair, one is appended.
\<close>

fun setParam :: "(string \<times> string) list \<Rightarrow> string \<Rightarrow> string \<Rightarrow> (string \<times> string) list" where
  "setParam [] p v = [(p, v)]"
| "setParam ((k, x) # ps) p v =
     (if k = p then (p, v) # filter (\<lambda>kv. fst kv \<noteq> p) ps else (k, x) # setParam ps p v)"

definition deleteParam :: "(string \<times> string) list \<Rightarrow> string \<Rightarrow> (string \<times> string) list" where
  "deleteParam ps p = filter (\<lambda>kv. fst kv \<noteq> p) ps"

definition isSearchPage :: "location \<Rightarrow> bool" where
  "isSearchPage loc = (pathname (href loc) = ''/search'' \<and> str_includes (search loc) ''q='')"

section \<open>The program state\<close>

text \<open>
  What a call leaves behind besides the state: the writes to the store, the calls of
  \<open>showToast\<close>, the timers it sets (a navigation to an address, or a later
  \<open>applyFilters\<close>), and a \<open>TypeError\<close> that leaves the call uncaught.
\<close>

datatype timer = Navigate url | ApplyFilters

datatype effect =
    SetItem string string
  | RemoveItem string
  | ShowToast string string
  | SetTimeout timer nat
  | UncaughtTypeError

record state =
  currentFilters :: "string perType"
  persistenceSettings :: "bool perType"
  siteFilters :: "(string \<times> filterData) list"
  localStorage :: "string \<rightharpoonup> string"
  location :: location
  trace :: "effect list"

definition setItem :: "string \<Rightarrow> string \<Rightarrow> state \<Rightarrow> state" where
  "setItem k v w = w\<lparr>localStorage := (localStorage w)(k \<mapsto> v), trace := trace w @ [SetItem k v]\<rparr>"

definition removeItem :: "string \<Rightarrow> state \<Rightarrow> state" where
  "removeItem k w = w\<lparr>localStorage := (localStorage w)(k := None), trace := trace w @ [RemoveItem k]\<rparr>"

definition showToast :: "string \<Rightarrow> string \<Rightarrow> state \<Rightarrow> state" where
  "showToast message type w = w\<lparr>trace := trace w @ [ShowToast message type]\<rparr>"

definition setTimeout :: "timer \<Rightarrow> nat \<Rightarrow> state \<Rightarrow> state" where
  "setTimeout f delay w = w\<lparr>trace := trace w @ [SetTimeout f delay]\<rparr>"

definition throwTypeError :: "state \<Rightarrow> state" where
  "throwTypeError w = w\<lparr>trace := trace w @ [UncaughtTypeError]\<rparr>"

subsection \<open>Start-up\<close>

text \<open>\<open>localStorage.getItem(key) || dflt\<close>\<close>

definition getItemOr :: "(string \<rightharpoonup> string) \<Rightarrow> string \<Rightarrow> string \<Rightarrow> string" where
  "getItemOr store key dflt =
     (case store key of None \<Rightarrow> dflt | Some v \<Rightarrow> if v = [] then dflt else v)"

definition initialPersistenceSettings :: "(string \<rightharpoonup> string) \<Rightarrow> bool perType" where
  "initialPersistenceSettings store =
     \<lparr>searchLang = (store ''googleSearchPersistSearchLang'' \<noteq> Some ''false''),
      interfaceLang = (store ''googleSearchPersistInterfaceLang'' \<noteq> Some ''false''),
      region = (store ''googleSearchPersistRegion'' = Some ''true''),
      site = (store ''googleSearchPersistSite'' = Some ''true''),
      time = (store ''googleSearchPersistTime'' = Some ''true'')\<rparr>"

definition initialFilters :: "(string \<rightharpoonup> string) \<Rightarrow> string perType" where
  "initialFilters store =
     (let persistenceSettings = initialPersistenceSettings store
      in \<lparr>searchLang = (if searchLang persistenceSettings
                           then getItemOr store ''googleSearchSearchLang'' ''all'' else ''all''),
          interfaceLang = (if interfaceLang persistenceSettings
                           then getItemOr store ''googleSearchInterfaceLang'' ''auto'' else ''auto''),
          region = (if region persistenceSettings
                    then getItemOr store ''googleSearchRegion'' ''auto'' else ''auto''),
          site = (if site persistenceSettings
                  then getItemOr store ''googleSearchSite'' ''all'' else ''all''),
          time = (if time persistenceSettings
                  then getItemOr store ''googleSearchTime'' ''all'' else ''all'')\<rparr>)"

subsection \<open>Isolated navigations for the interface language and the region\<close>

text \<open>
  Both functions run inside \<open>safeExecute\<close>: reading \<open>.name\<close> of an undefined
  definition throws a \<open>TypeError\<close> that is caught and logged to the console, so the call
  ends there with nothing shown and nothing scheduled.
\<close>

definition applyInterfaceLanguage :: "string \<Rightarrow> state \<Rightarrow> state" where
  "applyInterfaceLanguage langCode w =
     (if langCode = [] then w
      else
        let currentUrl = href (location w)
        in case getProperty interfaceLangFilters langCode of
             Undefined \<Rightarrow> w
           | p \<Rightarrow>
               let filterName = (case p of Own d \<Rightarrow> name d | _ \<Rightarrow> inheritedName langCode)
               in if langCode = ''auto'' then
                    setTimeout
                      (Navigate (currentUrl\<lparr>searchParams := deleteParam (searchParams currentUrl) ''hl''\<rparr>))
                      800
                      (showToast (''Switching to '' @ filterName @ ''...'') ''info'' w)
                  else
                    (case p of
                       Own interfaceData \<Rightarrow>
                         (case googleLang interfaceData of
                            None \<Rightarrow> w
                          | Some hlValue \<Rightarrow>
                              if hlValue = [] then w
                              else
                                setTimeout
                                  (Navigate (currentUrl\<lparr>searchParams :=
                                     setParam (searchParams currentUrl) ''hl'' hlValue\<rparr>))
                                  800
                                  (showToast (''Switching to '' @ filterName @ ''...'') ''info'' w))
                     | _ \<Rightarrow> w))"

definition applyRegionChange :: "string \<Rightarrow> state \<Rightarrow> state" where
  "applyRegionChange regionCode w =
     (if regionCode = [] then w
      else
        let currentUrl = href (location w)
        in case getProperty regionFilters regionCode of
             Undefined \<Rightarrow> w
           | p \<Rightarrow>
               let filterName = (case p of Own d \<Rightarrow> name d | _ \<Rightarrow> inheritedName regionCode)
               in if regionCode = ''auto'' then
                    setTimeout
                      (Navigate (currentUrl\<lparr>searchParams := deleteParam (searchParams currentUrl) ''gl''\<rparr>))
                      800
                      (showToast (''Switching to '' @ filterName @ ''...'') ''info'' w)
                  else
                    (case p of
                       Own regionData \<Rightarrow>
                         (case googleRegion regionData of
                            None \<Rightarrow> w
                          | Some glValue \<Rightarrow>
                              if glValue = [] then w
                              else
                                setTimeout
                                  (Navigate (currentUrl\<lparr>searchParams :=
                                     setParam (searchParams currentUrl) ''gl'' glValue\<rparr>))
                                  800
                                  (showToast (''Switching to '' @ filterName @ ''...'') ''info'' w))
                     | _ \<Rightarrow> w))"

subsection \<open>Selecting a filter and toggling persistence\<close>

text \<open>
  The updates of the button and of the panel read the state and change the page only;
  they are left out, as is the timer that ends the button's press animation.
  \<open>selectFilter\<close> is called from the click handler outside any \<open>safeExecute\<close>: its last
  statement reads \<open>filters[filterType][value].name\<close>, which throws when the value is no
  property of the table.
\<close>

definition selectFilter :: "filterType \<Rightarrow> string \<Rightarrow> state \<Rightarrow> state" where
  "selectFilter filterType v w =
     (if getFilter (currentFilters w) filterType = v then w
      else
        let w1 = w\<lparr>currentFilters := setFilter (currentFilters w) filterType v\<rparr>
        in if filterType = InterfaceLang then
             applyInterfaceLanguage v
               (if getFilter (persistenceSettings w1) filterType
                then setItem (getStorageKey filterType) v w1 else w1)
           else if filterType = Region then
             applyRegionChange v
               (if getFilter (persistenceSettings w1) filterType
                then setItem (getStorageKey filterType) v w1 else w1)
           else
             let w2 = (if getFilter (persistenceSettings w1) filterType
                       then setItem (getStorageKey filterType) v w1 else w1);
                 w3 = (if isSearchPage (location w2) then setTimeout ApplyFilters 200 w2 else w2)
             in case getProperty (filters (siteFilters w3) filterType) v of
                  Own d \<Rightarrow> showToast (name d @ '' selected'') ''success'' w3
                | Inherited \<Rightarrow> showToast (inheritedName v @ '' selected'') ''success'' w3
                | Undefined \<Rightarrow> throwTypeError w3)"

definition boolToString :: "bool \<Rightarrow> string" where
  "boolToString b = (if b then ''true'' else ''false'')"

definition togglePersistence :: "filterType \<Rightarrow> state \<Rightarrow> state" where
  "togglePersistence filterType w =
     (let w1 = w\<lparr>persistenceSettings :=
                  setFilter (persistenceSettings w) filterType
                    (\<not> getFilter (persistenceSettings w) filterType)\<rparr>;
          w2 = setItem (getPersistStorageKey filterType)
                 (boolToString (getFilter (persistenceSettings w1) filterType)) w1;
          w3 = (if \<not> getFilter (persistenceSettings w2) filterType then
                  removeItem (getStorageKey filterType)
                    (w2\<lparr>currentFilters :=
                          setFilter (currentFilters w2) filterType (defaultValue filterType)\<rparr>)
                else
                  setItem (getStorageKey filterType) (getFilter (currentFilters w2) filterType) w2);
          status = (if getFilter (persistenceSettings w3) filterType then ''enabled'' else ''disabled'')
      in showToast (getFilterName filterType @ '' persistence '' @ status) ''success'' w3)"

subsection \<open>Custom sites\<close>

text \<open>
  \<open>JSON.stringify\<close> is an argument of the functions that save the custom sites: what
  they write under the key \<open>googleSearchCustomSites\<close> is its result on the entries that
  are not built in. The answers to \<open>prompt\<close> and \<open>confirm\<close> are arguments as well;
  \<open>None\<close> is a cancelled prompt. Adding the entry to the page is left out.
\<close>

definition saveCustomSites :: "((string \<times> filterData) list \<Rightarrow> string) \<Rightarrow> state \<Rightarrow> state" where
  "saveCustomSites stringify w =
     setItem ''googleSearchCustomSites''
       (stringify (filter (\<lambda>kv. fst kv \<notin> set DEFAULT_SITES) (siteFilters w))) w"

definition deriveSiteKey :: "string \<Rightarrow> string" where
  "deriveSiteKey cleanUrl =
     filter (\<lambda>c. isAlnum c \<or> c = CHR ''_'')
       (map (\<lambda>c. if c = CHR ''.'' then CHR ''_'' else c) cleanUrl)"

definition addCustomSite ::
  "((string \<times> filterData) list \<Rightarrow> string) \<Rightarrow> string option \<Rightarrow> string option \<Rightarrow> state \<Rightarrow> state" where
  "addCustomSite stringify promptName promptUrl w =
     (let customSiteCount = int (length (siteFilters w)) - int (length DEFAULT_SITES)
      in if customSiteCount \<ge> MAX_CUSTOM_SITES then
           showToast ''Maximum number of custom sites reached'' ''warning'' w
         else
           case promptName of
             None \<Rightarrow> w
           | Some siteName \<Rightarrow>
               if siteName = [] \<or> trim siteName = [] then w
               else if \<not> isValidNonEmptyString promptName then w
               else
                 let trimmedName = trim siteName
                 in if length trimmedName > MAX_SITE_NAME_LENGTH then
                      showToast ''Site name too long'' ''warning'' w
                    else
                      let sanitizedName = sanitizeHTML (Some trimmedName)
                      in if sanitizedName \<noteq> trimmedName then
                           showToast ''Invalid characters in site name'' ''warning'' w
                         else if \<not> isValidNonEmptyString promptUrl then w
                         else
                           let cleanUrl = cleanURLDomain promptUrl
                           in if \<not> isValidURL promptUrl then
                                showToast ''Invalid URL format'' ''warning'' w
                              else
                                let siteKey = deriveSiteKey cleanUrl
                                in if getProperty (siteFilters w) siteKey \<noteq> Undefined then
                                     showToast ''Site already exists'' ''warning'' w
                                   else
                                     let siteData =
                                           siteEntry sanitizedName
                                             (take 12 (toUpperCase sanitizedName))
                                             (''site:'' @ cleanUrl) cleanUrl
                                             (''https://'' @ cleanUrl @ ''/favicon.ico'');
                                         w1 = w\<lparr>siteFilters := siteFilters w @ [(siteKey, siteData)]\<rparr>
                                     in showToast (sanitizedName @ '' added successfully'') ''success''
                                          (saveCustomSites stringify w1))"

definition removeCustomSite ::
  "((string \<times> filterData) list \<Rightarrow> string) \<Rightarrow> bool \<Rightarrow> string \<Rightarrow> state \<Rightarrow> state" where
  "removeCustomSite stringify confirmed siteKey w =
     (if siteKey = [] then w
      else if getProperty (siteFilters w) siteKey = Undefined then
        showToast ''Site not found'' ''warning'' w
      else if siteKey \<in> set DEFAULT_SITES then
        showToast ''Cannot remove default sites'' ''warning'' w
      else if confirmed then
        let w1 = w\<lparr>siteFilters := filter (\<lambda>kv. fst kv \<noteq> siteKey) (siteFilters w)\<rparr>;
            w2 = (if site (currentFilters w1) = siteKey then
                    let w' = w1\<lparr>currentFilters := (currentFilters w1)\<lparr>site := ''all''\<rparr>\<rparr>
                    in if site (persistenceSettings w') then setItem ''googleSearchSite'' ''all'' w'
                       else w'
                  else w1)
        in showToast ''Site removed successfully'' ''success'' (saveCustomSites stringify w2)
      else w)"

section \<open>Dates\<close>

text \<open>
  \<open>new Date(year, monthIndex, day)\<close> is local midnight of the day \<open>MakeDay\<close> counts
  from 1 January 1970 (ECMAScript, \<open>MakeDay\<close> and \<open>DayFromYear\<close>): a month index
  outside 0..11 carries into the year, a day outside the month carries into the
  neighbouring months, and a year from 0 to 99 means 1900 + year.
\<close>

definition DayFromYear :: "int \<Rightarrow> int" where
  "DayFromYear y =
     365 * (y - 1970) + (y - 1969) div 4 - (y - 1901) div 100 + (y - 1601) div 400"

definition InLeapYear :: "int \<Rightarrow> bool" where
  "InLeapYear y = ((y mod 4 = 0 \<and> y mod 100 \<noteq> 0) \<or> y mod 400 = 0)"

definition daysBeforeMonth :: "bool \<Rightarrow> nat \<Rightarrow> int" where
  "daysBeforeMonth leap mn =
     [0, 31, 59, 90, 120, 151, 181, 212, 243, 273, 304, 334] ! mn +
     (if leap \<and> 2 \<le> mn then 1 else 0)"

definition MakeDay :: "int \<Rightarrow> int \<Rightarrow> int \<Rightarrow> int" where
  "MakeDay year month date =
     (let ym = year + month div 12;
          mn = nat (month mod 12)
      in DayFromYear ym + daysBeforeMonth (InLeapYear ym) mn + date - 1)"

definition fullYear :: "int \<Rightarrow> int" where
  "fullYear year = (if 0 \<le> year \<and> year \<le> 99 then 1900 + year else year)"

text \<open>
  The time value of a \<open>Date\<close> in milliseconds. \<open>utcOffset d\<close> is the offset of local time
  from UTC, in milliseconds, at local midnight of day \<open>d\<close>; it changes with daylight
  saving time.
\<close>

definition msPerDay :: int where
  "msPerDay = 24 * 60 * 60 * 1000"

definition newDate :: "(int \<Rightarrow> int) \<Rightarrow> int \<Rightarrow> int \<Rightarrow> int \<Rightarrow> int" where
  "newDate utcOffset year monthIndex day =
     (let d = MakeDay (fullYear year) monthIndex day in d * msPerDay - utcOffset d)"

text \<open>\<open>Number\<close> of a string of decimal digits.\<close>

definition digitValue :: "char \<Rightarrow> int" where
  "digitValue c = int (length (takeWhile (\<lambda>d. d \<noteq> c) ''0123456789''))"

definition Number :: "string \<Rightarrow> int" where
  "Number s = foldl (\<lambda>n c. 10 * n + digitValue c) 0 s"

text \<open>
  The match of \<open>/cd_min:(\d{1,2}\/\d{1,2}\/\d{4}),cd_max:(\d{1,2}\/\d{1,2}\/\d{4})/\<close>:
  each group of one or two digits ends at a slash, so it is all the digits there are,
  and the match fails when that is more than two. The match is the leftmost one. A date
  is returned as the three strings \<open>split('/')\<close> gives.
\<close>

definition matchDigits12 :: "string \<Rightarrow> (string \<times> string) option" where
  "matchDigits12 s =
     (let ds = takeWhile isDigit s
      in if 1 \<le> length ds \<and> length ds \<le> 2 then Some (ds, drop (length ds) s) else None)"

definition matchLiteral :: "string \<Rightarrow> string \<Rightarrow> string option" where
  "matchLiteral lit s = (if prefix lit s then Some (drop (length lit) s) else None)"

definition matchDate :: "string \<Rightarrow> ((string \<times> string \<times> string) \<times> string) option" where
  "matchDate s =
     (case matchDigits12 s of
        None \<Rightarrow> None
      | Some (m, r1) \<Rightarrow>
          (case matchLiteral ''/'' r1 of
             None \<Rightarrow> None
           | Some r2 \<Rightarrow>
               (case matchDigits12 r2 of
                  None \<Rightarrow> None
                | Some (d, r3) \<Rightarrow>
                    (case matchLiteral ''/'' r3 of
                       None \<Rightarrow> None
                     | Some r4 \<Rightarrow>
                         if 4 \<le> length r4 \<and> list_all isDigit (take 4 r4)
                         then Some ((m, d, take 4 r4), drop 4 r4) else None))))"

definition matchDateRangeAt ::
  "string \<Rightarrow> ((string \<times> string \<times> string) \<times> (string \<times> string \<times> string)) option" where
  "matchDateRangeAt s =
     (case matchLiteral ''cd_min:'' s of
        None \<Rightarrow> None
      | Some r1 \<Rightarrow>
          (case matchDate r1 of
             None \<Rightarrow> None
           | Some (minDate, r2) \<Rightarrow>
               (case matchLiteral '',cd_max:'' r2 of
                  None \<Rightarrow> None
                | Some r3 \<Rightarrow>
                    (case matchDate r3 of
                       None \<Rightarrow> None
                     | Some (maxDate, r4) \<Rightarrow> Some (minDate, maxDate)))))"

fun matchDateRange ::
  "string \<Rightarrow> ((string \<times> string \<times> string) \<times> (string \<times> string \<times> string)) option" where
  "matchDateRange [] = None"
| "matchDateRange (c # s) =
     (case matchDateRangeAt (c # s) of
        Some r \<Rightarrow> Some r
      | None \<Rightarrow> matchDateRange s)"

text \<open>\<open>parseDate\<close>: month, day, year; the numbers of digit strings are never \<open>NaN\<close>.\<close>

definition parseDate :: "(int \<Rightarrow> int) \<Rightarrow> string \<times> string \<times> string \<Rightarrow> int" where
  "parseDate utcOffset mdy =
     (case mdy of (month, day, year) \<Rightarrow>
        newDate utcOffset (Number year) (Number month - 1) (Number day))"

text \<open>\<open>(endDate - startDate) / (365.25 * 24 * 60 * 60 * 1000)\<close>, as an exact quotient.\<close>

definition yearsDiff :: "int \<Rightarrow> int \<Rightarrow> rat" where
  "yearsDiff startDate endDate =
     of_int (endDate - startDate) / (365.25 * 24 * 60 * 60 * 1000)"

definition syncCustomDateRange :: "(int \<Rightarrow> int) \<Rightarrow> string \<Rightarrow> state \<Rightarrow> state" where
  "syncCustomDateRange utcOffset tbs w =
     (case matchDateRange tbs of
        None \<Rightarrow> w
      | Some (minDate, maxDate) \<Rightarrow>
          let startDate = parseDate utcOffset minDate;
              endDate = parseDate utcOffset maxDate
          in if yearsDiff startDate endDate \<ge> 1.8 \<and> yearsDiff startDate endDate \<le> 2.2
             then w\<lparr>currentFilters := (currentFilters w)\<lparr>time := ''2year''\<rparr>\<rparr>
             else w)"

section \<open>Reading the address\<close>

text \<open>
  \<open>syncFiltersFromURL\<close>. A missing parameter reads as the empty string, which is falsy
  like an empty value.
\<close>

definition syncFiltersFromURL :: "(int \<Rightarrow> int) \<Rightarrow> state \<Rightarrow> state" where
  "syncFiltersFromURL utcOffset w =
     (let ps = searchParams (href (location w));
          q = getParam ps ''q'';
          lr = getParam ps ''lr'';
          tbs = getParam ps ''tbs'';
          hl = getParam ps ''hl'';
          gl = getParam ps ''gl'';
          w1 = (if hl \<noteq> [] then
                  w\<lparr>currentFilters := (currentFilters w)\<lparr>interfaceLang :=
                       (case findKey interfaceLangFilters (\<lambda>d. googleLang d = Some hl) of
                          Some k \<Rightarrow> if k = [] then ''auto'' else k
                        | None \<Rightarrow> ''auto'')\<rparr>\<rparr>
                else w);
          w2 = (if gl \<noteq> [] then
                  w1\<lparr>currentFilters := (currentFilters w1)\<lparr>region :=
                       (case findKey regionFilters (\<lambda>d. googleRegion d = Some gl) of
                          Some k \<Rightarrow> if k = [] then ''auto'' else k
                        | None \<Rightarrow> ''auto'')\<rparr>\<rparr>
                else w1)
      in if \<not> isSearchPage (location w2) then w2
         else
           let w3 = (case findKey (siteFilters w2)
                            (\<lambda>d. case query d of
                                    None \<Rightarrow> False
                                  | Some sq \<Rightarrow> sq \<noteq> [] \<and> str_includes q sq) of
                       Some k \<Rightarrow> w2\<lparr>currentFilters := (currentFilters w2)\<lparr>site := k\<rparr>\<rparr>
                     | None \<Rightarrow> w2);
               w4 = (if lr \<noteq> [] then
                       let langCode = replaceFirst lr ''lang_'' []
                       in if getProperty searchLangFilters langCode \<noteq> Undefined
                          then w3\<lparr>currentFilters := (currentFilters w3)\<lparr>searchLang := langCode\<rparr>\<rparr>
                          else w3
                     else w3)
           in if tbs \<noteq> [] then
                if startsWith tbs ''cdr:1,cd_min:'' then syncCustomDateRange utcOffset tbs w4
                else
                  let timeParam = replaceFirst tbs ''qdr:'' []
                  in case findKey timeFilters (\<lambda>d. param d = Some timeParam) of
                       Some k \<Rightarrow> w4\<lparr>currentFilters := (currentFilters w4)\<lparr>time := k\<rparr>\<rparr>
                     | None \<Rightarrow> w4
              else w4)"

section \<open>Writing the address\<close>





text \<open>
  The calendar date of a \<open>Date\<close> object: \<open>getFullYear\<close>, \<open>getMonth\<close> (from 0) and
  \<open>getDate\<close>.
\<close>

record date =
  getFullYear :: int
  getMonth :: nat
  getDate :: nat












section \<open>The consistency check\<close>


section \<open>Example states\<close>

definition exampleLocation :: location where
  "exampleLocation =
     \<lparr>href = \<lparr>pathname = ''/search'', searchParams = [(''q'', ''foo''), (''hl'', ''tr'')]\<rparr>,
      search = ''?q=foo&hl=tr''\<rparr>"

definition exampleState :: state where
  "exampleState =
     \<lparr>currentFilters = \<lparr>searchLang = ''tr'', interfaceLang = ''auto'', region = ''auto'',
                         site = ''all'', time = ''all''\<rparr>,
      persistenceSettings = \<lparr>searchLang = True, interfaceLang = True, region = False,
                              site = False, time = False\<rparr>,
      siteFilters = defaultSiteFilters,
      localStorage = [''googleSearchSearchLang'' \<mapsto> ''tr''],
      location = exampleLocation,
      trace = []\<rparr>"

definition customSiteState :: state where
  "customSiteState =
     exampleState
       \<lparr>currentFilters := (currentFilters exampleState)\<lparr>site := ''twitter_com''\<rparr>,
        persistenceSettings := (persistenceSettings exampleState)\<lparr>site := True\<rparr>,
        siteFilters := defaultSiteFilters @
          [(''twitter_com'', siteEntry ''Twitter'' ''TWITTER'' ''site:twitter.com'' ''twitter.com''
              ''https://twitter.com/favicon.ico'')],
        localStorage := [''googleSearchSite'' \<mapsto> ''twitter_com'']\<rparr>"

definition hlMismatchState :: state where
  "hlMismatchState =
     exampleState
       \<lparr>currentFilters := (currentFilters exampleState)\<lparr>interfaceLang := ''tr''\<rparr>,
        location :=
          \<lparr>href = \<lparr>pathname = ''/search'', searchParams = [(''q'', ''foo''), (''hl'', ''xx'')]\<rparr>,
           search = ''?q=foo&hl=xx''\<rparr>\<rparr>"

definition twoYearState :: state where
  "twoYearState =
     exampleState
       \<lparr>location :=
          \<lparr>href = \<lparr>pathname = ''/search'',
                    searchParams = [(''q'', ''foo''),
                                    (''tbs'', ''cdr:1,cd_min:1/15/2023,cd_max:1/10/2025'')]\<rparr>,
           search = ''?q=foo&tbs=cdr:1,cd_min:1/15/2023,cd_max:1/10/2025''\<rparr>\<rparr>"

definition oneYearState :: state where
  "oneYearState =
     exampleState
       \<lparr>location :=
          \<lparr>href = \<lparr>pathname = ''/search'',
                    searchParams = [(''q'', ''foo''),
                                    (''tbs'', ''cdr:1,cd_min:1/15/2023,cd_max:1/15/2024'')]\<rparr>,
           search = ''?q=foo&tbs=cdr:1,cd_min:1/15/2023,cd_max:1/15/2024''\<rparr>\<rparr>"



text \<open>A stand-in for \<open>JSON.stringify\<close> in the examples: the keys of the entries.\<close>

definition keysOnly :: "(string \<times> filterData) list \<Rightarrow> string" where
  "keysOnly sites = concat (map (\<lambda>kv. fst kv @ '';'') sites)"

section \<open>Properties used in the statements\<close>

text \<open>The store writes among the effects of a call.\<close>

fun isStoreWrite :: "effect \<Rightarrow> bool" where
  "isStoreWrite (SetItem k v) = True"
| "isStoreWrite (RemoveItem k) = True"
| "isStoreWrite e = False"

text \<open>
  The parameters of an address other than \<open>p\<close>, in order, and the values of \<open>p\<close>
  (\<open>searchParams.getAll(p)\<close>).
\<close>

definition otherParams :: "string \<Rightarrow> url \<Rightarrow> (string \<times> string) list" where
  "otherParams p u = filter (\<lambda>kv. fst kv \<noteq> p) (searchParams u)"

definition paramValues :: "string \<Rightarrow> url \<Rightarrow> string list" where
  "paramValues p u = map snd (filter (\<lambda>kv. fst kv = p) (searchParams u))"

text \<open>The day a matched date denotes, counted from 1 January 1970.\<close>

definition dayNumber :: "string \<times> string \<times> string \<Rightarrow> int" where
  "dayNumber mdy =
     (case mdy of (month, day, year) \<Rightarrow>
        MakeDay (fullYear (Number year)) (Number month - 1) (Number day))"

text \<open>The site selection is \<open>all\<close> or a key of \<open>filters.site\<close>.\<close>

definition siteSelectionValid :: "state \<Rightarrow> bool" where
  "siteSelectionValid w =
     (site (currentFilters w) = ''all'' \<or>
      map_of (siteFilters w) (site (currentFilters w)) \<noteq> None)"



text \<open>
  The fragment of the selected site has no white space at either end; nothing is asked
  when no site is selected.
\<close>

definition selectedFragmentTrimmed :: "(string \<times> filterData) list \<Rightarrow> string perType \<Rightarrow> bool" where
  "selectedFragmentTrimmed sites cf =
     (site cf = ''all'' \<or>
      (case map_of sites (site cf) of
         None \<Rightarrow> True
       | Some d \<Rightarrow> (case query d of None \<Rightarrow> True | Some sq \<Rightarrow> trim sq = sq)))"

text \<open>
  No site fragment of the catalogue has white space at either end. That is so for the
  built-in sites and for every site \<open>addCustomSite\<close> adds.
\<close>

definition siteQueriesTrimmed :: "(string \<times> filterData) list \<Rightarrow> bool" where
  "siteQueriesTrimmed sites =
     list_all (\<lambda>kd. case query (snd kd) of None \<Rightarrow> True | Some sq \<Rightarrow> trim sq = sq) sites"

text \<open>A string without white space at either end.\<close>

definition trimmed :: "string \<Rightarrow> bool" where
  "trimmed s = (s = [] \<or> (\<not> isWhiteSpace (hd s) \<and> \<not> isWhiteSpace (last s)))"

section \<open>Basic facts\<close>

lemma exampleState_fields [simp]:
  "currentFilters exampleState =
     \<lparr>searchLang = ''tr'', interfaceLang = ''auto'', region = ''auto'', site = ''all'',
      time = ''all''\<rparr>"
  "persistenceSettings exampleState =
     \<lparr>searchLang = True, interfaceLang = True, region = False, site = False, time = False\<rparr>"
  "siteFilters exampleState = defaultSiteFilters"
  "localStorage exampleState = [''googleSearchSearchLang'' \<mapsto> ''tr'']"
  "location exampleState = exampleLocation"
  "trace exampleState = []"
  by (simp_all add: exampleState_def)

lemma storageKeys [simp]:
  "getStorageKey SearchLang = ''googleSearchSearchLang''"
  "getStorageKey InterfaceLang = ''googleSearchInterfaceLang''"
  "getStorageKey Region = ''googleSearchRegion''"
  "getStorageKey Site = ''googleSearchSite''"
  "getStorageKey Time = ''googleSearchTime''"
  by (simp_all add: getStorageKey_def capitalize_def typeName_def toUpperCase_def toUpperChar_def)

lemma persistStorageKeys [simp]:
  "getPersistStorageKey SearchLang = ''googleSearchPersistSearchLang''"
  "getPersistStorageKey InterfaceLang = ''googleSearchPersistInterfaceLang''"
  "getPersistStorageKey Region = ''googleSearchPersistRegion''"
  "getPersistStorageKey Site = ''googleSearchPersistSite''"
  "getPersistStorageKey Time = ''googleSearchPersistTime''"
  by (simp_all add: getPersistStorageKey_def capitalize_def typeName_def toUpperCase_def
        toUpperChar_def)

lemma getFilter_setFilter [simp]:
  "getFilter (setFilter obj ft v) ft' = (if ft' = ft then v else getFilter obj ft')"
  by (cases ft; cases ft') simp_all

lemma setItem_fields [simp]:
  "currentFilters (setItem k v w) = currentFilters w"
  "persistenceSettings (setItem k v w) = persistenceSettings w"
  "siteFilters (setItem k v w) = siteFilters w"
  "location (setItem k v w) = location w"
  "localStorage (setItem k v w) = (localStorage w)(k \<mapsto> v)"
  "trace (setItem k v w) = trace w @ [SetItem k v]"
  by (simp_all add: setItem_def)

lemma removeItem_fields [simp]:
  "currentFilters (removeItem k w) = currentFilters w"
  "persistenceSettings (removeItem k w) = persistenceSettings w"
  "siteFilters (removeItem k w) = siteFilters w"
  "location (removeItem k w) = location w"
  "localStorage (removeItem k w) = (localStorage w)(k := None)"
  "trace (removeItem k w) = trace w @ [RemoveItem k]"
  by (simp_all add: removeItem_def)

lemma showToast_fields [simp]:
  "currentFilters (showToast m t w) = currentFilters w"
  "persistenceSettings (showToast m t w) = persistenceSettings w"
  "siteFilters (showToast m t w) = siteFilters w"
  "location (showToast m t w) = location w"
  "localStorage (showToast m t w) = localStorage w"
  "trace (showToast m t w) = trace w @ [ShowToast m t]"
  by (simp_all add: showToast_def)

lemma setTimeout_fields [simp]:
  "currentFilters (setTimeout f n w) = currentFilters w"
  "persistenceSettings (setTimeout f n w) = persistenceSettings w"
  "siteFilters (setTimeout f n w) = siteFilters w"
  "location (setTimeout f n w) = location w"
  "localStorage (setTimeout f n w) = localStorage w"
  "trace (setTimeout f n w) = trace w @ [SetTimeout f n]"
  by (simp_all add: setTimeout_def)

lemma throwTypeError_fields [simp]:
  "currentFilters (throwTypeError w) = currentFilters w"
  "persistenceSettings (throwTypeError w) = persistenceSettings w"
  "siteFilters (throwTypeError w) = siteFilters w"
  "location (throwTypeError w) = location w"
  "localStorage (throwTypeError w) = localStorage w"
  "trace (throwTypeError w) = trace w @ [UncaughtTypeError]"
  by (simp_all add: throwTypeError_def)

lemma applyInterfaceLanguage_frame:
  "currentFilters (applyInterfaceLanguage c w) = currentFilters w"
  "persistenceSettings (applyInterfaceLanguage c w) = persistenceSettings w"
  "siteFilters (applyInterfaceLanguage c w) = siteFilters w"
  "localStorage (applyInterfaceLanguage c w) = localStorage w"
  "location (applyInterfaceLanguage c w) = location w"
  "filter isStoreWrite (trace (applyInterfaceLanguage c w)) = filter isStoreWrite (trace w)"
  by (simp_all add: applyInterfaceLanguage_def Let_def split: property.split option.split)

lemma applyRegionChange_frame:
  "currentFilters (applyRegionChange c w) = currentFilters w"
  "persistenceSettings (applyRegionChange c w) = persistenceSettings w"
  "siteFilters (applyRegionChange c w) = siteFilters w"
  "localStorage (applyRegionChange c w) = localStorage w"
  "location (applyRegionChange c w) = location w"
  "filter isStoreWrite (trace (applyRegionChange c w)) = filter isStoreWrite (trace w)"
  by (simp_all add: applyRegionChange_def Let_def split: property.split option.split)

section \<open>Start-up: the initial selection\<close>

text \<open>
  Claim C4, as the code has it. For every category: with the persistence flag off the
  initial selection is the category default whatever the store holds; with the flag on
  it is the stored value as it stands when one is present and not empty, and the default
  when the value is absent or empty. The stored value is not looked up in the
  catalogue.
\<close>

theorem initialFilters_spec:
  "getFilter (initialFilters store) filterType =
     (if getFilter (initialPersistenceSettings store) filterType
      then (case store (getStorageKey filterType) of
              None \<Rightarrow> defaultValue filterType
            | Some v \<Rightarrow> if v = [] then defaultValue filterType else v)
      else defaultValue filterType)"
  by (cases filterType)
     (simp_all add: initialFilters_def Let_def getItemOr_def defaultValue_def split: option.split)

theorem initialFilters_spec_witness:
  "getFilter (initialFilters [''googleSearchRegion'' \<mapsto> ''us'']) Region = ''auto'' \<and>
   getFilter (initialFilters [''googleSearchPersistRegion'' \<mapsto> ''true'',
                              ''googleSearchRegion'' \<mapsto> ''us'']) Region = ''us''"
  using initialFilters_spec [of "[''googleSearchRegion'' \<mapsto> ''us'']" Region]
    initialFilters_spec [of "[''googleSearchPersistRegion'' \<mapsto> ''true'',
                              ''googleSearchRegion'' \<mapsto> ''us'']" Region]
  by (simp add: initialPersistenceSettings_def defaultValue_def)

text \<open>
  The claim as stated fails: with nothing but the value \<open>xx\<close> stored for the result
  language, the flag reads as on, \<open>xx\<close> is no key of the category, and the initial
  selection is \<open>xx\<close>.
\<close>

theorem initialFilters_counterexample:
  "searchLang (initialPersistenceSettings [''googleSearchSearchLang'' \<mapsto> ''xx'']) \<and>
   map_of searchLangFilters ''xx'' = None \<and>
   searchLang (initialFilters [''googleSearchSearchLang'' \<mapsto> ''xx'']) = ''xx''"
  by (simp add: initialPersistenceSettings_def initialFilters_def getItemOr_def
        searchLangFilters_def)

section \<open>Selecting a filter\<close>

lemma selectFilter_current:
  "getFilter (currentFilters (selectFilter filterType v w)) filterType = v"
  by (simp add: selectFilter_def Let_def applyInterfaceLanguage_frame applyRegionChange_frame
        split: property.split)

lemma selectFilter_store:
  assumes "getFilter (currentFilters w) filterType \<noteq> v"
  shows "localStorage (selectFilter filterType v w) =
           (if getFilter (persistenceSettings w) filterType
            then (localStorage w)(getStorageKey filterType \<mapsto> v) else localStorage w)"
    and "filter isStoreWrite (trace (selectFilter filterType v w)) =
           filter isStoreWrite (trace w) @
           (if getFilter (persistenceSettings w) filterType
            then [SetItem (getStorageKey filterType) v] else [])"
  using assms
  by (simp_all add: selectFilter_def Let_def applyInterfaceLanguage_frame applyRegionChange_frame
        split: property.split)

lemma selectFilter_throws:
  assumes "getFilter (currentFilters w) filterType \<noteq> v"
    and "filterType \<noteq> InterfaceLang" and "filterType \<noteq> Region"
    and "getProperty (filters (siteFilters w) filterType) v = Undefined"
  shows "last (trace (selectFilter filterType v w)) = UncaughtTypeError"
  using assms by (simp add: selectFilter_def Let_def)

text \<open>
  Claim C3, as the code has it. \<open>selectFilter\<close> does not look the code up in the
  catalogue before it stores it: for every category and every code other than the
  current selection, known or not, the selection in memory becomes that code, and the
  code is written under the category's key of the store exactly when the category's
  persistence flag is on (no other store write happens). For a code that is no property
  of the table of a category other than the interface language and the region, the call
  then ends in an uncaught \<open>TypeError\<close>.
\<close>

theorem selectFilter_unvalidated:
  assumes "getFilter (currentFilters w) filterType \<noteq> v"
  shows "getFilter (currentFilters (selectFilter filterType v w)) filterType = v \<and>
         localStorage (selectFilter filterType v w) =
           (if getFilter (persistenceSettings w) filterType
            then (localStorage w)(getStorageKey filterType \<mapsto> v) else localStorage w) \<and>
         filter isStoreWrite (trace (selectFilter filterType v w)) =
           filter isStoreWrite (trace w) @
           (if getFilter (persistenceSettings w) filterType
            then [SetItem (getStorageKey filterType) v] else []) \<and>
         (filterType \<noteq> InterfaceLang \<and> filterType \<noteq> Region \<and>
          getProperty (filters (siteFilters w) filterType) v = Undefined \<longrightarrow>
            last (trace (selectFilter filterType v w)) = UncaughtTypeError)"
  using selectFilter_current selectFilter_store [OF assms] selectFilter_throws [OF assms]
  by simp

theorem selectFilter_unvalidated_witness:
  "getFilter (currentFilters (selectFilter SearchLang ''en'' exampleState)) SearchLang = ''en'' \<and>
   localStorage (selectFilter SearchLang ''en'' exampleState) =
     [''googleSearchSearchLang'' \<mapsto> ''en''] \<and>
   filter isStoreWrite (trace (selectFilter SearchLang ''en'' exampleState)) =
     [SetItem ''googleSearchSearchLang'' ''en'']"
  using selectFilter_unvalidated [of exampleState SearchLang "''en''"]
  by simp

text \<open>
  The claim as stated fails: \<open>xx\<close> is no result language, and selecting it changes the
  selection in memory and writes \<open>xx\<close> to the store before the call throws.
\<close>

theorem selectFilter_counterexample:
  "getProperty searchLangFilters ''xx'' = Undefined \<and>
   searchLang (currentFilters exampleState) = ''tr'' \<and>
   searchLang (currentFilters (selectFilter SearchLang ''xx'' exampleState)) = ''xx'' \<and>
   localStorage (selectFilter SearchLang ''xx'' exampleState) ''googleSearchSearchLang'' =
     Some ''xx'' \<and>
   trace (selectFilter SearchLang ''xx'' exampleState) =
     [SetItem ''googleSearchSearchLang'' ''xx'', SetTimeout ApplyFilters 200, UncaughtTypeError]"
  by (simp add: selectFilter_def Let_def getProperty_def searchLangFilters_def
        objectPrototypeKeys_def isSearchPage_def exampleLocation_def)

text \<open>
  Claim C8. Selecting the code that is already selected changes nothing: the state,
  with its store and its trace of effects, is the one before the call. A call of
  \<open>selectFilter\<close> always leaves its code selected, so a second identical call is such a
  call: two calls in a row give the state of one, and the second adds no effect, hence
  no store write.
\<close>

theorem selectFilter_idempotent:
  "(getFilter (currentFilters w) filterType = v \<longrightarrow> selectFilter filterType v w = w) \<and>
   selectFilter filterType v (selectFilter filterType v w) = selectFilter filterType v w \<and>
   trace (selectFilter filterType v (selectFilter filterType v w)) =
     trace (selectFilter filterType v w) \<and>
   localStorage (selectFilter filterType v (selectFilter filterType v w)) =
     localStorage (selectFilter filterType v w)"
proof -
  have noop: "\<And>s. getFilter (currentFilters s) filterType = v \<Longrightarrow> selectFilter filterType v s = s"
    by (simp add: selectFilter_def)
  have twice: "selectFilter filterType v (selectFilter filterType v w) = selectFilter filterType v w"
    by (rule noop) (rule selectFilter_current)
  show ?thesis
    using noop twice by simp
qed

theorem selectFilter_idempotent_witness:
  "selectFilter SearchLang ''tr'' exampleState = exampleState \<and>
   selectFilter Site ''reddit'' (selectFilter Site ''reddit'' exampleState) =
     selectFilter Site ''reddit'' exampleState \<and>
   trace (selectFilter Site ''reddit'' (selectFilter Site ''reddit'' exampleState)) =
     trace (selectFilter Site ''reddit'' exampleState)"
  using selectFilter_idempotent [of exampleState SearchLang "''tr''"]
    selectFilter_idempotent [of exampleState Site "''reddit''"]
  by simp

section \<open>Toggling persistence\<close>

text \<open>
  Claim C2, as the code has it. Toggling a category's flag from on to off removes the
  category's key from the store and resets the selection in memory of that category to
  the category default; toggling from off to on writes the current selection to the
  store and leaves the selection in memory as it is. The selections and the flags of
  the other categories do not change.
\<close>

theorem togglePersistence_spec:
  "(getFilter (persistenceSettings w) filterType \<longrightarrow>
      \<not> getFilter (persistenceSettings (togglePersistence filterType w)) filterType \<and>
      localStorage (togglePersistence filterType w) (getStorageKey filterType) = None \<and>
      getFilter (currentFilters (togglePersistence filterType w)) filterType =
        defaultValue filterType) \<and>
   (\<not> getFilter (persistenceSettings w) filterType \<longrightarrow>
      getFilter (persistenceSettings (togglePersistence filterType w)) filterType \<and>
      localStorage (togglePersistence filterType w) (getStorageKey filterType) =
        Some (getFilter (currentFilters w) filterType) \<and>
      currentFilters (togglePersistence filterType w) = currentFilters w) \<and>
   (\<forall>other. other \<noteq> filterType \<longrightarrow>
      getFilter (currentFilters (togglePersistence filterType w)) other =
        getFilter (currentFilters w) other \<and>
      getFilter (persistenceSettings (togglePersistence filterType w)) other =
        getFilter (persistenceSettings w) other)"
  by (simp add: togglePersistence_def Let_def)

theorem togglePersistence_spec_witness:
  "\<not> getFilter (persistenceSettings (togglePersistence SearchLang exampleState)) SearchLang \<and>
   localStorage (togglePersistence SearchLang exampleState) ''googleSearchSearchLang'' = None \<and>
   getFilter (currentFilters (togglePersistence SearchLang exampleState)) SearchLang = ''all'' \<and>
   getFilter (persistenceSettings (togglePersistence Region exampleState)) Region \<and>
   localStorage (togglePersistence Region exampleState) ''googleSearchRegion'' = Some ''auto'' \<and>
   currentFilters (togglePersistence Region exampleState) = currentFilters exampleState"
  using togglePersistence_spec [of exampleState SearchLang]
    togglePersistence_spec [of exampleState Region]
  by (simp add: defaultValue_def)

text \<open>
  The claim as stated fails: with Turkish selected and remembered, switching the flag
  off leaves \<open>all\<close> selected in memory.
\<close>

theorem togglePersistence_counterexample:
  "searchLang (persistenceSettings exampleState) \<and>
   searchLang (currentFilters exampleState) = ''tr'' \<and>
   searchLang (currentFilters (togglePersistence SearchLang exampleState)) = ''all''"
  by (simp add: togglePersistence_def Let_def defaultValue_def)

section \<open>Isolated navigations\<close>

lemma setParam_others: "filter (\<lambda>kv. fst kv \<noteq> p) (setParam ps p v) = filter (\<lambda>kv. fst kv \<noteq> p) ps"
  by (induction ps p v rule: setParam.induct) auto

lemma setParam_this: "filter (\<lambda>kv. fst kv = p) (setParam ps p v) = [(p, v)]"
  by (induction ps p v rule: setParam.induct) auto

lemma deleteParam_others: "filter (\<lambda>kv. fst kv \<noteq> p) (deleteParam ps p) = filter (\<lambda>kv. fst kv \<noteq> p) ps"
  by (simp add: deleteParam_def)

lemma deleteParam_this: "filter (\<lambda>kv. fst kv = p) (deleteParam ps p) = []"
  by (induction ps) (auto simp: deleteParam_def)

lemma interfaceLang_cases:
  "map_of interfaceLangFilters c = Some d \<Longrightarrow>
     (c = ''auto'' \<and> googleLang d = None) \<or> (c = ''tr'' \<and> googleLang d = Some ''tr'') \<or>
     (c = ''en'' \<and> googleLang d = Some ''en'')"
  by (auto simp: interfaceLangFilters_def entry_def split: if_splits)

lemma region_cases:
  "map_of regionFilters c = Some d \<Longrightarrow>
     (c = ''auto'' \<and> googleRegion d = None) \<or> (c = ''tr'' \<and> googleRegion d = Some ''TR'') \<or>
     (c = ''us'' \<and> googleRegion d = Some ''US'')"
  by (auto simp: regionFilters_def entry_def split: if_splits)

lemma applyInterfaceLanguage_known:
  assumes "map_of interfaceLangFilters langCode = Some d"
  shows "applyInterfaceLanguage langCode w =
           setTimeout
             (Navigate ((href (location w))\<lparr>searchParams :=
                (if langCode = ''auto'' then deleteParam (searchParams (href (location w))) ''hl''
                 else setParam (searchParams (href (location w))) ''hl'' (the (googleLang d)))\<rparr>))
             800 (showToast (''Switching to '' @ name d @ ''...'') ''info'' w)"
  using interfaceLang_cases [OF assms] assms
  by (auto simp: applyInterfaceLanguage_def Let_def getProperty_def)

lemma applyRegionChange_known:
  assumes "map_of regionFilters regionCode = Some d"
  shows "applyRegionChange regionCode w =
           setTimeout
             (Navigate ((href (location w))\<lparr>searchParams :=
                (if regionCode = ''auto'' then deleteParam (searchParams (href (location w))) ''gl''
                 else setParam (searchParams (href (location w))) ''gl'' (the (googleRegion d)))\<rparr>))
             800 (showToast (''Switching to '' @ name d @ ''...'') ''info'' w)"
  using region_cases [OF assms] assms
  by (auto simp: applyRegionChange_def Let_def getProperty_def)

text \<open>
  Claim C9. For every code of the interface-language catalogue (of the region
  catalogue), \<open>applyInterfaceLanguage\<close> (\<open>applyRegionChange\<close>) shows one message and
  sets one timer of 800 ms that navigates to a target with the path of the current
  address and with all its parameters other than \<open>hl\<close> (\<open>gl\<close>), in their order; the
  target has no \<open>hl\<close> (\<open>gl\<close>) for the code \<open>auto\<close> and exactly one, the code's
  external value, for any other code. Nothing else of the state changes.
\<close>

theorem isolated_navigation:
  "(map_of interfaceLangFilters langCode = Some d \<longrightarrow>
      (\<exists>target.
         applyInterfaceLanguage langCode w =
           setTimeout (Navigate target) 800
             (showToast (''Switching to '' @ name d @ ''...'') ''info'' w) \<and>
         pathname target = pathname (href (location w)) \<and>
         otherParams ''hl'' target = otherParams ''hl'' (href (location w)) \<and>
         map Some (paramValues ''hl'' target) =
           (if langCode = ''auto'' then [] else [googleLang d]))) \<and>
   (map_of regionFilters regionCode = Some r \<longrightarrow>
      (\<exists>target.
         applyRegionChange regionCode w =
           setTimeout (Navigate target) 800
             (showToast (''Switching to '' @ name r @ ''...'') ''info'' w) \<and>
         pathname target = pathname (href (location w)) \<and>
         otherParams ''gl'' target = otherParams ''gl'' (href (location w)) \<and>
         map Some (paramValues ''gl'' target) =
           (if regionCode = ''auto'' then [] else [googleRegion r])))"
proof (intro conjI impI)
  assume a: "map_of interfaceLangFilters langCode = Some d"
  let ?t = "(href (location w))\<lparr>searchParams :=
              (if langCode = ''auto'' then deleteParam (searchParams (href (location w))) ''hl''
               else setParam (searchParams (href (location w))) ''hl'' (the (googleLang d)))\<rparr>"
  have 1: "applyInterfaceLanguage langCode w =
             setTimeout (Navigate ?t) 800
               (showToast (''Switching to '' @ name d @ ''...'') ''info'' w)"
    by (rule applyInterfaceLanguage_known [OF a])
  have 2: "pathname ?t = pathname (href (location w))"
    by simp
  have 3: "otherParams ''hl'' ?t = otherParams ''hl'' (href (location w))"
    by (simp add: otherParams_def setParam_others deleteParam_others)
  have 4: "map Some (paramValues ''hl'' ?t) = (if langCode = ''auto'' then [] else [googleLang d])"
    using interfaceLang_cases [OF a]
    by (auto simp: paramValues_def setParam_this deleteParam_this)
  show "\<exists>target.
         applyInterfaceLanguage langCode w =
           setTimeout (Navigate target) 800
             (showToast (''Switching to '' @ name d @ ''...'') ''info'' w) \<and>
         pathname target = pathname (href (location w)) \<and>
         otherParams ''hl'' target = otherParams ''hl'' (href (location w)) \<and>
         map Some (paramValues ''hl'' target) =
           (if langCode = ''auto'' then [] else [googleLang d])"
    using 1 2 3 4 by blast
next
  assume a: "map_of regionFilters regionCode = Some r"
  let ?t = "(href (location w))\<lparr>searchParams :=
              (if regionCode = ''auto'' then deleteParam (searchParams (href (location w))) ''gl''
               else setParam (searchParams (href (location w))) ''gl'' (the (googleRegion r)))\<rparr>"
  have 1: "applyRegionChange regionCode w =
             setTimeout (Navigate ?t) 800
               (showToast (''Switching to '' @ name r @ ''...'') ''info'' w)"
    by (rule applyRegionChange_known [OF a])
  have 2: "pathname ?t = pathname (href (location w))"
    by simp
  have 3: "otherParams ''gl'' ?t = otherParams ''gl'' (href (location w))"
    by (simp add: otherParams_def setParam_others deleteParam_others)
  have 4: "map Some (paramValues ''gl'' ?t) = (if regionCode = ''auto'' then [] else [googleRegion r])"
    using region_cases [OF a]
    by (auto simp: paramValues_def setParam_this deleteParam_this)
  show "\<exists>target.
         applyRegionChange regionCode w =
           setTimeout (Navigate target) 800
             (showToast (''Switching to '' @ name r @ ''...'') ''info'' w) \<and>
         pathname target = pathname (href (location w)) \<and>
         otherParams ''gl'' target = otherParams ''gl'' (href (location w)) \<and>
         map Some (paramValues ''gl'' target) =
           (if regionCode = ''auto'' then [] else [googleRegion r])"
    using 1 2 3 4 by blast
qed

theorem isolated_navigation_witness:
  "(\<exists>target.
      applyInterfaceLanguage ''en'' exampleState =
        setTimeout (Navigate target) 800
          (showToast ''Switching to English UI...'' ''info'' exampleState) \<and>
      pathname target = ''/search'' \<and>
      otherParams ''hl'' target = [(''q'', ''foo'')] \<and>
      map Some (paramValues ''hl'' target) = [Some ''en'']) \<and>
   (\<exists>target.
      applyRegionChange ''auto'' exampleState =
        setTimeout (Navigate target) 800
          (showToast ''Switching to Auto Detect...'' ''info'' exampleState) \<and>
      pathname target = ''/search'' \<and>
      otherParams ''gl'' target = [(''q'', ''foo''), (''hl'', ''tr'')] \<and>
      map Some (paramValues ''gl'' target) = [])"
  using isolated_navigation [of "''en''" "(entry ''English UI'' ''EN'')\<lparr>googleLang := Some ''en''\<rparr>"
      exampleState "''auto''" "entry ''Auto Detect'' ''AUTO''"]
  by (simp add: interfaceLangFilters_def regionFilters_def otherParams_def exampleLocation_def entry_def)

section \<open>Removing a custom site\<close>

lemma map_of_filter_key: "map_of (filter (\<lambda>kv. fst kv \<noteq> k) xs) k = None"
  by (induction xs) auto

lemma map_of_filter_other: "k' \<noteq> k \<Longrightarrow> map_of (filter (\<lambda>kv. fst kv \<noteq> k) xs) k' = map_of xs k'"
  by (induction xs) auto

lemma saveCustomSites_fields [simp]:
  "currentFilters (saveCustomSites f w) = currentFilters w"
  "persistenceSettings (saveCustomSites f w) = persistenceSettings w"
  "siteFilters (saveCustomSites f w) = siteFilters w"
  "location (saveCustomSites f w) = location w"
  by (simp_all add: saveCustomSites_def)

lemma removeCustomSite_valid:
  assumes "siteSelectionValid w"
  shows "siteSelectionValid (removeCustomSite stringify confirmed anyKey w)"
proof (cases "site (currentFilters w) = anyKey")
  case True
  then show ?thesis
    using assms by (auto simp: removeCustomSite_def Let_def siteSelectionValid_def)
next
  case False
  then show ?thesis
    using assms
    by (auto simp: removeCustomSite_def Let_def siteSelectionValid_def map_of_filter_other)
qed

text \<open>
  Claim C10. After a confirmed \<open>removeCustomSite\<close> of a key of \<open>filters.site\<close> that is
  not built in and is the current site selection, the selection in memory is \<open>all\<close> and
  the key is gone from the catalogue; \<open>all\<close> is written under \<open>googleSearchSite\<close>
  exactly when the site persistence flag is on, the only other store write being the
  saved custom sites. And for every state, key and answer to the confirmation, a site
  selection that is \<open>all\<close> or a key of the catalogue is so after the call.
\<close>

theorem removeCustomSite_selected:
  assumes "siteKey \<noteq> []"
    and "map_of (siteFilters w) siteKey \<noteq> None"
    and "siteKey \<notin> set DEFAULT_SITES"
    and "site (currentFilters w) = siteKey"
  shows "site (currentFilters (removeCustomSite stringify True siteKey w)) = ''all'' \<and>
         map_of (siteFilters (removeCustomSite stringify True siteKey w)) siteKey = None \<and>
         localStorage (removeCustomSite stringify True siteKey w) ''googleSearchSite'' =
           (if site (persistenceSettings w) then Some ''all''
            else localStorage w ''googleSearchSite'') \<and>
         filter isStoreWrite (trace (removeCustomSite stringify True siteKey w)) =
           filter isStoreWrite (trace w) @
           (if site (persistenceSettings w) then [SetItem ''googleSearchSite'' ''all''] else []) @
           [SetItem ''googleSearchCustomSites''
              (stringify (filter (\<lambda>kv. fst kv \<notin> set DEFAULT_SITES)
                 (filter (\<lambda>kv. fst kv \<noteq> siteKey) (siteFilters w))))] \<and>
         (\<forall>s confirmed anyKey.
            siteSelectionValid s \<longrightarrow>
            siteSelectionValid (removeCustomSite stringify confirmed anyKey s))"
  using assms removeCustomSite_valid
  by (auto simp: removeCustomSite_def Let_def getProperty_def saveCustomSites_def
        map_of_filter_key)

theorem removeCustomSite_selected_witness:
  "site (currentFilters (removeCustomSite keysOnly True ''twitter_com'' customSiteState)) = ''all'' \<and>
   map_of (siteFilters (removeCustomSite keysOnly True ''twitter_com'' customSiteState))
     ''twitter_com'' = None \<and>
   localStorage (removeCustomSite keysOnly True ''twitter_com'' customSiteState)
     ''googleSearchSite'' = Some ''all''"
  using removeCustomSite_selected [of "''twitter_com''" customSiteState keysOnly]
  by (simp add: customSiteState_def defaultSiteFilters_def DEFAULT_SITES_def)

section \<open>Custom-site validation\<close>

lemma last_dropWhile: "dropWhile P xs \<noteq> [] \<Longrightarrow> last (dropWhile P xs) = last xs"
  by (metis last_appendR takeWhile_dropWhile_id)

lemma trim_Nil [simp]: "trim [] = []"
  by (simp add: trim_def)

lemma trim_nonempty: "trim n \<noteq> [] \<Longrightarrow> n \<noteq> []"
  by auto

lemma length_trim: "length (trim s) \<le> length s"
proof -
  have "length (dropWhile isWhiteSpace (rev (dropWhile isWhiteSpace s))) \<le>
          length (rev (dropWhile isWhiteSpace s))"
    by (rule length_dropWhile_le)
  also have "\<dots> \<le> length s"
    by (simp add: length_dropWhile_le)
  finally show ?thesis by (simp add: trim_def)
qed

lemma trimmed_trim: "trimmed (trim s)"
proof -
  let ?t = "dropWhile isWhiteSpace s"
  let ?u = "dropWhile isWhiteSpace (rev ?t)"
  show ?thesis
  proof (cases "?u = []")
    case True
    then show ?thesis by (simp add: trimmed_def trim_def)
  next
    case False
    then have t: "?t \<noteq> []"
      by (metis dropWhile.simps(1) rev.simps(1))
    have "\<not> isWhiteSpace (hd ?u)"
      using False by (rule hd_dropWhile)
    then have l: "\<not> isWhiteSpace (last (rev ?u))"
      using False by (simp add: last_rev)
    have "last ?u = last (rev ?t)"
      using False by (rule last_dropWhile)
    also have "\<dots> = hd ?t"
      using t by (simp add: last_rev)
    finally have "hd (rev ?u) = hd ?t"
      using False by (simp add: hd_rev)
    moreover have "\<not> isWhiteSpace (hd ?t)"
      using t by (rule hd_dropWhile)
    ultimately show ?thesis
      using l by (simp add: trimmed_def trim_def)
  qed
qed

lemma dropWhile_hd_self: "xs \<noteq> [] \<Longrightarrow> \<not> P (hd xs) \<Longrightarrow> dropWhile P xs = xs"
  by (cases xs) auto

lemma trim_append_trimmed:
  assumes "trimmed q" and "q \<noteq> []"
  shows "\<exists>y. trim (x @ q) = y @ q"
proof -
  from assms have h: "\<not> isWhiteSpace (hd q)" and l: "\<not> isWhiteSpace (last q)"
    by (auto simp: trimmed_def)
  have "dropWhile isWhiteSpace q = q"
    using assms(2) h by (rule dropWhile_hd_self)
  then obtain y where y: "dropWhile isWhiteSpace (x @ q) = y @ q"
    by (cases "\<forall>c\<in>set x. isWhiteSpace c") (auto simp: dropWhile_append)
  have "dropWhile isWhiteSpace (rev (y @ q)) = rev (y @ q)"
    using assms(2) l by (intro dropWhile_hd_self) (auto simp: hd_append hd_rev)
  then show ?thesis
    by (simp add: trim_def y)
qed

lemma trim_trimmed: "trimmed s \<Longrightarrow> trim s = s"
proof (cases "s = []")
  case True
  then show ?thesis by (simp add: trim_def)
next
  case False
  assume "trimmed s"
  then obtain y where y: "trim ([] @ s) = y @ s"
    using False trim_append_trimmed by blast
  then show ?thesis using length_trim [of s] by simp
qed

lemma trim_idem [simp]: "trim (trim s) = trim s"
  by (rule trim_trimmed) (rule trimmed_trim)

lemma escapeChar_length: "1 \<le> length (escapeChar c)"
  by (simp add: escapeChar_def)

lemma escapeChar_longer: "escapeChar c \<noteq> [c] \<Longrightarrow> 2 \<le> length (escapeChar c)"
  by (simp add: escapeChar_def split: if_splits)

lemma escape_length: "length s \<le> length (concat (map escapeChar s))"
proof (induction s)
  case Nil
  then show ?case by simp
next
  case (Cons c s)
  then show ?case using escapeChar_length [of c] by simp
qed

lemma escape_changes:
  "c \<in> set s \<Longrightarrow> escapeChar c \<noteq> [c] \<Longrightarrow> length s < length (concat (map escapeChar s))"
proof (induction s)
  case Nil
  then show ?case by simp
next
  case (Cons a s)
  show ?case
  proof (cases "a = c")
    case True
    then show ?thesis
      using escapeChar_longer [OF Cons.prems(2)] escape_length [of s] by simp
  next
    case False
    then have "length s < length (concat (map escapeChar s))"
      using Cons by simp
    then show ?thesis using escapeChar_length [of a] by simp
  qed
qed

lemma escape_same: "\<forall>c\<in>set s. escapeChar c = [c] \<Longrightarrow> concat (map escapeChar s) = s"
  by (induction s) auto

lemma sanitizeHTML_changed:
  assumes "trim n \<noteq> []" and "c \<in> set (trim n)" and "escapeChar c \<noteq> [c]"
  shows "sanitizeHTML (Some (trim n)) \<noteq> trim n"
  using assms escape_changes [OF assms(2,3)]
  by (auto simp: sanitizeHTML_def isValidNonEmptyString_def)

lemma sanitizeHTML_same:
  assumes "trim n \<noteq> []" and "\<forall>c\<in>set (trim n). escapeChar c = [c]"
  shows "sanitizeHTML (Some (trim n)) = trim n"
  using assms escape_same [OF assms(2)]
  by (simp add: sanitizeHTML_def isValidNonEmptyString_def)

text \<open>
  Claim C7. While the number of custom sites is below the maximum (otherwise no name is
  asked for), \<open>addCustomSite\<close> rejects
  \<^item> a name of more than 20 characters after trimming, with the message
    \<open>Site name too long\<close>;
  \<^item> a name of at most 20 characters that holds a character the HTML escaping changes,
    with the message \<open>Invalid characters in site name\<close>: the name is not stripped;
  \<^item> after a name that passes, a domain that is not blank and does not match the host
    pattern once scheme and path are stripped, with the message \<open>Invalid URL format\<close>.
  In each case the result is the state before the call with that one warning shown: no
  site is added and nothing is written to the store.
\<close>

theorem addCustomSite_rejects:
  assumes "int (length (siteFilters w)) - int (length DEFAULT_SITES) < MAX_CUSTOM_SITES"
  shows "(MAX_SITE_NAME_LENGTH < length (trim n) \<longrightarrow>
            addCustomSite stringify (Some n) u w = showToast ''Site name too long'' ''warning'' w) \<and>
         (trim n \<noteq> [] \<and> length (trim n) \<le> MAX_SITE_NAME_LENGTH \<and>
          (\<exists>c\<in>set (trim n). escapeChar c \<noteq> [c]) \<longrightarrow>
            addCustomSite stringify (Some n) u w =
              showToast ''Invalid characters in site name'' ''warning'' w) \<and>
         (trim n \<noteq> [] \<and> length (trim n) \<le> MAX_SITE_NAME_LENGTH \<and>
          (\<forall>c\<in>set (trim n). escapeChar c = [c]) \<and> trim d \<noteq> [] \<and>
          \<not> URL_VALIDATION_REGEX_test (cleanURLDomain (Some d)) \<longrightarrow>
            addCustomSite stringify (Some n) (Some d) w =
              showToast ''Invalid URL format'' ''warning'' w) \<and>
         siteFilters (showToast m ''warning'' w) = siteFilters w \<and>
         localStorage (showToast m ''warning'' w) = localStorage w \<and>
         filter isStoreWrite (trace (showToast m ''warning'' w)) = filter isStoreWrite (trace w)"
proof (intro conjI impI)
  assume "MAX_SITE_NAME_LENGTH < length (trim n)"
  moreover from this have "trim n \<noteq> []" "n \<noteq> []"
    by auto
  ultimately show "addCustomSite stringify (Some n) u w = showToast ''Site name too long'' ''warning'' w"
    using assms by (simp add: addCustomSite_def Let_def isValidNonEmptyString_def)
next
  assume a: "trim n \<noteq> [] \<and> length (trim n) \<le> MAX_SITE_NAME_LENGTH \<and>
          (\<exists>c\<in>set (trim n). escapeChar c \<noteq> [c])"
  then have "n \<noteq> []" by auto
  moreover from a have "sanitizeHTML (Some (trim n)) \<noteq> trim n"
    using sanitizeHTML_changed by blast
  ultimately show "addCustomSite stringify (Some n) u w =
              showToast ''Invalid characters in site name'' ''warning'' w"
    using assms a by (simp add: addCustomSite_def Let_def isValidNonEmptyString_def)
next
  assume a: "trim n \<noteq> [] \<and> length (trim n) \<le> MAX_SITE_NAME_LENGTH \<and>
          (\<forall>c\<in>set (trim n). escapeChar c = [c]) \<and> trim d \<noteq> [] \<and>
          \<not> URL_VALIDATION_REGEX_test (cleanURLDomain (Some d))"
  then have "n \<noteq> []" by auto
  moreover from a have "sanitizeHTML (Some (trim n)) = trim n"
    using sanitizeHTML_same by blast
  moreover from a have "\<not> isValidURL (Some d)"
    by (simp add: isValidURL_def Let_def)
  ultimately show "addCustomSite stringify (Some n) (Some d) w =
              showToast ''Invalid URL format'' ''warning'' w"
    using assms a by (simp add: addCustomSite_def Let_def isValidNonEmptyString_def)
qed simp_all

lemma trim_a21: "trim (replicate 21 (CHR ''a'')) = replicate 21 (CHR ''a'')"
  by code_simp

theorem addCustomSite_rejects_witness:
  "addCustomSite keysOnly (Some (replicate 21 (CHR ''a''))) (Some ''x.com'') exampleState =
     showToast ''Site name too long'' ''warning'' exampleState \<and>
   addCustomSite keysOnly (Some ''<b>x</b>'') (Some ''x.com'') exampleState =
     showToast ''Invalid characters in site name'' ''warning'' exampleState \<and>
   addCustomSite keysOnly (Some ''ok'') (Some ''not a domain'') exampleState =
     showToast ''Invalid URL format'' ''warning'' exampleState \<and>
   siteFilters (showToast ''Site name too long'' ''warning'' exampleState) = defaultSiteFilters \<and>
   localStorage (showToast ''Site name too long'' ''warning'' exampleState) =
     localStorage exampleState"
proof -
  have cap: "int (length (siteFilters exampleState)) - int (length DEFAULT_SITES) < MAX_CUSTOM_SITES"
    by (simp add: defaultSiteFilters_def DEFAULT_SITES_def MAX_CUSTOM_SITES_def)
  have 1: "MAX_SITE_NAME_LENGTH < length (trim (replicate 21 (CHR ''a'')))"
    by (simp add: trim_a21 MAX_SITE_NAME_LENGTH_def)
  have t2: "trim ''<b>x</b>'' = ''<b>x</b>''"
    by (simp add: trim_def isWhiteSpace_def)
  have 2: "trim ''<b>x</b>'' \<noteq> [] \<and> length (trim ''<b>x</b>'') \<le> MAX_SITE_NAME_LENGTH \<and>
          (\<exists>c\<in>set (trim ''<b>x</b>''). escapeChar c \<noteq> [c])"
    by (simp add: t2 MAX_SITE_NAME_LENGTH_def escapeChar_def)
  have t3: "trim ''ok'' = ''ok''" "trim ''not a domain'' = ''not a domain''"
    by (simp_all add: trim_def isWhiteSpace_def)
  have c3: "cleanURLDomain (Some ''not a domain'') = ''not a domain''"
    by (simp add: cleanURLDomain_def isValidNonEmptyString_def t3 stripScheme_def)
  have 3: "trim ''ok'' \<noteq> [] \<and> length (trim ''ok'') \<le> MAX_SITE_NAME_LENGTH \<and>
          (\<forall>c\<in>set (trim ''ok''). escapeChar c = [c]) \<and> trim ''not a domain'' \<noteq> [] \<and>
          \<not> URL_VALIDATION_REGEX_test (cleanURLDomain (Some ''not a domain''))"
    by (simp add: t3 c3 MAX_SITE_NAME_LENGTH_def escapeChar_def URL_VALIDATION_REGEX_test_def)
  show ?thesis
    using addCustomSite_rejects [OF cap, of "replicate 21 (CHR ''a'')" keysOnly "Some ''x.com''"
        "''not a domain''" "''Site name too long''"]
      addCustomSite_rejects [OF cap, of "''<b>x</b>''" keysOnly "Some ''x.com''"
        "''not a domain''" "''Site name too long''"]
      addCustomSite_rejects [OF cap, of "''ok''" keysOnly "Some ''x.com''"
        "''not a domain''" "''Site name too long''"]
      1 2 3
    by simp
qed

section \<open>Reading the address: what a parse changes\<close>

lemma parseDate_dayNumber:
  "parseDate utcOffset mdy = dayNumber mdy * msPerDay - utcOffset (dayNumber mdy)"
  by (cases mdy) (simp add: parseDate_def dayNumber_def newDate_def Let_def)

lemma yearsDiff_ge: "(1.8 \<le> yearsDiff s e) = (56803680000 \<le> e - s)"
proof -
  have "(1.8 \<le> yearsDiff s e) = ((56803680000::rat) \<le> of_int (e - s))"
    unfolding yearsDiff_def by (subst pos_le_divide_eq) simp_all
  also have "\<dots> = (56803680000 \<le> e - s)"
    by (metis of_int_le_iff of_int_numeral)
  finally show ?thesis .
qed

lemma yearsDiff_le: "(yearsDiff s e \<le> 2.2) = (e - s \<le> 69426720000)"
proof -
  have "(yearsDiff s e \<le> 2.2) = (of_int (e - s) \<le> (69426720000::rat))"
    unfolding yearsDiff_def by (subst pos_divide_le_eq) simp_all
  also have "\<dots> = (e - s \<le> 69426720000)"
    by (metis of_int_le_iff of_int_numeral)
  finally show ?thesis .
qed

lemma two_year_span:
  assumes "\<bar>o2 - o1\<bar> < (38880000::int)"
  shows "(1.8 \<le> yearsDiff (a * msPerDay - o1) (b * msPerDay - o2) \<and>
          yearsDiff (a * msPerDay - o1) (b * msPerDay - o2) \<le> 2.2) =
         (658 \<le> b - a \<and> b - a \<le> 803)"
  using assms unfolding yearsDiff_ge yearsDiff_le msPerDay_def by auto


lemma syncCustomDateRange_fields [simp]:
  "searchLang (currentFilters (syncCustomDateRange f tbs w)) = searchLang (currentFilters w)"
  "interfaceLang (currentFilters (syncCustomDateRange f tbs w)) = interfaceLang (currentFilters w)"
  "region (currentFilters (syncCustomDateRange f tbs w)) = region (currentFilters w)"
  "site (currentFilters (syncCustomDateRange f tbs w)) = site (currentFilters w)"
  by (simp_all add: syncCustomDateRange_def Let_def split: option.split prod.split)

lemma syncCustomDateRange_days:
  "syncCustomDateRange utcOffset tbs w =
     (case matchDateRange tbs of
        None \<Rightarrow> w
      | Some (minDate, maxDate) \<Rightarrow>
          if 1.8 \<le> yearsDiff (dayNumber minDate * msPerDay - utcOffset (dayNumber minDate))
                     (dayNumber maxDate * msPerDay - utcOffset (dayNumber maxDate)) \<and>
             yearsDiff (dayNumber minDate * msPerDay - utcOffset (dayNumber minDate))
                     (dayNumber maxDate * msPerDay - utcOffset (dayNumber maxDate)) \<le> 2.2
          then w\<lparr>currentFilters := (currentFilters w)\<lparr>time := ''2year''\<rparr>\<rparr> else w)"
  by (simp add: syncCustomDateRange_def Let_def parseDate_dayNumber split: option.split prod.split)

lemma syncCustomDateRange_span:
  assumes "matchDateRange tbs = Some (minDate, maxDate)"
    and "\<bar>utcOffset (dayNumber maxDate) - utcOffset (dayNumber minDate)\<bar> < 38880000"
  shows "syncCustomDateRange utcOffset tbs w =
           (if 658 \<le> dayNumber maxDate - dayNumber minDate \<and>
               dayNumber maxDate - dayNumber minDate \<le> 803
            then w\<lparr>currentFilters := (currentFilters w)\<lparr>time := ''2year''\<rparr>\<rparr> else w)"
  unfolding syncCustomDateRange_days using assms(1) two_year_span [OF assms(2)]
  by simp

lemma syncCustomDateRange_time:
  assumes "time (currentFilters a) = time (currentFilters b)"
  shows "time (currentFilters (syncCustomDateRange f tbs a)) =
         time (currentFilters (syncCustomDateRange f tbs b))"
  using assms by (simp add: syncCustomDateRange_def Let_def split: option.split prod.split)

text \<open>
  The five selections after \<open>syncFiltersFromURL\<close>, one by one. The proof names the
  intermediate states of the definition and follows them in order.
\<close>

lemma sync_fields:
  fixes utcOffset w
  defines "ps \<equiv> searchParams (href (location w))"
  shows sync_interfaceLang:
    "interfaceLang (currentFilters (syncFiltersFromURL utcOffset w)) =
       (if getParam ps ''hl'' \<noteq> [] then
          (case findKey interfaceLangFilters (\<lambda>d. googleLang d = Some (getParam ps ''hl'')) of
             Some k \<Rightarrow> if k = [] then ''auto'' else k
           | None \<Rightarrow> ''auto'')
        else interfaceLang (currentFilters w))"
    and sync_region:
    "region (currentFilters (syncFiltersFromURL utcOffset w)) =
       (if getParam ps ''gl'' \<noteq> [] then
          (case findKey regionFilters (\<lambda>d. googleRegion d = Some (getParam ps ''gl'')) of
             Some k \<Rightarrow> if k = [] then ''auto'' else k
           | None \<Rightarrow> ''auto'')
        else region (currentFilters w))"
    and sync_site:
    "site (currentFilters (syncFiltersFromURL utcOffset w)) =
       (if isSearchPage (location w) then
          (case findKey (siteFilters w)
                  (\<lambda>d. case query d of
                          None \<Rightarrow> False
                        | Some sq \<Rightarrow> sq \<noteq> [] \<and> str_includes (getParam ps ''q'') sq) of
             Some k \<Rightarrow> k
           | None \<Rightarrow> site (currentFilters w))
        else site (currentFilters w))"
    and sync_searchLang:
    "searchLang (currentFilters (syncFiltersFromURL utcOffset w)) =
       (if isSearchPage (location w) \<and> getParam ps ''lr'' \<noteq> [] \<and>
           getProperty searchLangFilters (replaceFirst (getParam ps ''lr'') ''lang_'' []) \<noteq>
             Undefined
        then replaceFirst (getParam ps ''lr'') ''lang_'' []
        else searchLang (currentFilters w))"
    and sync_time:
    "time (currentFilters (syncFiltersFromURL utcOffset w)) =
       (if isSearchPage (location w) \<and> getParam ps ''tbs'' \<noteq> [] then
          if startsWith (getParam ps ''tbs'') ''cdr:1,cd_min:''
          then time (currentFilters (syncCustomDateRange utcOffset (getParam ps ''tbs'') w))
          else (case findKey timeFilters
                       (\<lambda>d. param d = Some (replaceFirst (getParam ps ''tbs'') ''qdr:'' [])) of
                  Some k \<Rightarrow> k
                | None \<Rightarrow> time (currentFilters w))
        else time (currentFilters w))"
proof -
  define w1 where "w1 =
    (if getParam ps ''hl'' \<noteq> [] then
       w\<lparr>currentFilters := (currentFilters w)\<lparr>interfaceLang :=
            (case findKey interfaceLangFilters (\<lambda>d. googleLang d = Some (getParam ps ''hl'')) of
               Some k \<Rightarrow> if k = [] then ''auto'' else k
             | None \<Rightarrow> ''auto'')\<rparr>\<rparr>
     else w)"
  define w2 where "w2 =
    (if getParam ps ''gl'' \<noteq> [] then
       w1\<lparr>currentFilters := (currentFilters w1)\<lparr>region :=
            (case findKey regionFilters (\<lambda>d. googleRegion d = Some (getParam ps ''gl'')) of
               Some k \<Rightarrow> if k = [] then ''auto'' else k
             | None \<Rightarrow> ''auto'')\<rparr>\<rparr>
     else w1)"
  define w3 where "w3 =
    (case findKey (siteFilters w2)
            (\<lambda>d. case query d of
                    None \<Rightarrow> False
                  | Some sq \<Rightarrow> sq \<noteq> [] \<and> str_includes (getParam ps ''q'') sq) of
       Some k \<Rightarrow> w2\<lparr>currentFilters := (currentFilters w2)\<lparr>site := k\<rparr>\<rparr>
     | None \<Rightarrow> w2)"
  define w4 where "w4 =
    (if getParam ps ''lr'' \<noteq> [] then
       let langCode = replaceFirst (getParam ps ''lr'') ''lang_'' []
       in if getProperty searchLangFilters langCode \<noteq> Undefined
          then w3\<lparr>currentFilters := (currentFilters w3)\<lparr>searchLang := langCode\<rparr>\<rparr>
          else w3
     else w3)"
  define w5 where "w5 =
    (if getParam ps ''tbs'' \<noteq> [] then
       if startsWith (getParam ps ''tbs'') ''cdr:1,cd_min:''
       then syncCustomDateRange utcOffset (getParam ps ''tbs'') w4
       else
         let timeParam = replaceFirst (getParam ps ''tbs'') ''qdr:'' []
         in case findKey timeFilters (\<lambda>d. param d = Some timeParam) of
              Some k \<Rightarrow> w4\<lparr>currentFilters := (currentFilters w4)\<lparr>time := k\<rparr>\<rparr>
            | None \<Rightarrow> w4
     else w4)"
  have unfold: "syncFiltersFromURL utcOffset w = (if \<not> isSearchPage (location w2) then w2 else w5)"
    unfolding syncFiltersFromURL_def w5_def w4_def w3_def w2_def w1_def ps_def Let_def
    by (rule refl)
  have f1: "location w1 = location w" "siteFilters w1 = siteFilters w"
    "searchLang (currentFilters w1) = searchLang (currentFilters w)"
    "region (currentFilters w1) = region (currentFilters w)"
    "site (currentFilters w1) = site (currentFilters w)"
    "time (currentFilters w1) = time (currentFilters w)"
    by (simp_all add: w1_def)
  have i1: "interfaceLang (currentFilters w1) =
       (if getParam ps ''hl'' \<noteq> [] then
          (case findKey interfaceLangFilters (\<lambda>d. googleLang d = Some (getParam ps ''hl'')) of
             Some k \<Rightarrow> if k = [] then ''auto'' else k
           | None \<Rightarrow> ''auto'')
        else interfaceLang (currentFilters w))"
    by (simp add: w1_def)
  have f2: "location w2 = location w" "siteFilters w2 = siteFilters w"
    "searchLang (currentFilters w2) = searchLang (currentFilters w)"
    "interfaceLang (currentFilters w2) = interfaceLang (currentFilters w1)"
    "site (currentFilters w2) = site (currentFilters w)"
    "time (currentFilters w2) = time (currentFilters w)"
    by (simp_all add: w2_def f1)
  have r2: "region (currentFilters w2) =
       (if getParam ps ''gl'' \<noteq> [] then
          (case findKey regionFilters (\<lambda>d. googleRegion d = Some (getParam ps ''gl'')) of
             Some k \<Rightarrow> if k = [] then ''auto'' else k
           | None \<Rightarrow> ''auto'')
        else region (currentFilters w))"
    by (simp add: w2_def f1)
  have f3: "searchLang (currentFilters w3) = searchLang (currentFilters w)"
    "interfaceLang (currentFilters w3) = interfaceLang (currentFilters w1)"
    "region (currentFilters w3) = region (currentFilters w2)"
    "time (currentFilters w3) = time (currentFilters w)"
    by (simp_all add: w3_def f2 split: option.split)
  have s3: "site (currentFilters w3) =
       (case findKey (siteFilters w)
               (\<lambda>d. case query d of
                       None \<Rightarrow> False
                     | Some sq \<Rightarrow> sq \<noteq> [] \<and> str_includes (getParam ps ''q'') sq) of
          Some k \<Rightarrow> k
        | None \<Rightarrow> site (currentFilters w))"
    by (simp add: w3_def f2 split: option.split)
  have f4: "interfaceLang (currentFilters w4) = interfaceLang (currentFilters w1)"
    "region (currentFilters w4) = region (currentFilters w2)"
    "site (currentFilters w4) = site (currentFilters w3)"
    "time (currentFilters w4) = time (currentFilters w)"
    by (simp_all add: w4_def f3 Let_def)
  have l4: "searchLang (currentFilters w4) =
       (if getParam ps ''lr'' \<noteq> [] \<and>
           getProperty searchLangFilters (replaceFirst (getParam ps ''lr'') ''lang_'' []) \<noteq>
             Undefined
        then replaceFirst (getParam ps ''lr'') ''lang_'' []
        else searchLang (currentFilters w))"
    by (simp add: w4_def f3 Let_def)
  have f5: "interfaceLang (currentFilters w5) = interfaceLang (currentFilters w1)"
    "region (currentFilters w5) = region (currentFilters w2)"
    "site (currentFilters w5) = site (currentFilters w3)"
    "searchLang (currentFilters w5) = searchLang (currentFilters w4)"
    by (simp_all add: w5_def f4 Let_def split: option.split)
  have t5: "time (currentFilters w5) =
       (if getParam ps ''tbs'' \<noteq> [] then
          if startsWith (getParam ps ''tbs'') ''cdr:1,cd_min:''
          then time (currentFilters (syncCustomDateRange utcOffset (getParam ps ''tbs'') w))
          else (case findKey timeFilters
                       (\<lambda>d. param d = Some (replaceFirst (getParam ps ''tbs'') ''qdr:'' [])) of
                  Some k \<Rightarrow> k
                | None \<Rightarrow> time (currentFilters w))
        else time (currentFilters w))"
    using syncCustomDateRange_time [OF f4(4), of utcOffset "getParam ps ''tbs''"]
    by (simp add: w5_def f4 Let_def split: option.split)
  show "interfaceLang (currentFilters (syncFiltersFromURL utcOffset w)) =
       (if getParam ps ''hl'' \<noteq> [] then
          (case findKey interfaceLangFilters (\<lambda>d. googleLang d = Some (getParam ps ''hl'')) of
             Some k \<Rightarrow> if k = [] then ''auto'' else k
           | None \<Rightarrow> ''auto'')
        else interfaceLang (currentFilters w))"
    unfolding unfold using i1 by (simp add: f2 f5)
  show "region (currentFilters (syncFiltersFromURL utcOffset w)) =
       (if getParam ps ''gl'' \<noteq> [] then
          (case findKey regionFilters (\<lambda>d. googleRegion d = Some (getParam ps ''gl'')) of
             Some k \<Rightarrow> if k = [] then ''auto'' else k
           | None \<Rightarrow> ''auto'')
        else region (currentFilters w))"
    unfolding unfold using r2 by (simp add: f5)
  show "site (currentFilters (syncFiltersFromURL utcOffset w)) =
       (if isSearchPage (location w) then
          (case findKey (siteFilters w)
                  (\<lambda>d. case query d of
                          None \<Rightarrow> False
                        | Some sq \<Rightarrow> sq \<noteq> [] \<and> str_includes (getParam ps ''q'') sq) of
             Some k \<Rightarrow> k
           | None \<Rightarrow> site (currentFilters w))
        else site (currentFilters w))"
    unfolding unfold using s3 by (simp add: f2 f5)
  show "searchLang (currentFilters (syncFiltersFromURL utcOffset w)) =
       (if isSearchPage (location w) \<and> getParam ps ''lr'' \<noteq> [] \<and>
           getProperty searchLangFilters (replaceFirst (getParam ps ''lr'') ''lang_'' []) \<noteq>
             Undefined
        then replaceFirst (getParam ps ''lr'') ''lang_'' []
        else searchLang (currentFilters w))"
    unfolding unfold using l4 by (simp add: f2 f5)
  show "time (currentFilters (syncFiltersFromURL utcOffset w)) =
       (if isSearchPage (location w) \<and> getParam ps ''tbs'' \<noteq> [] then
          if startsWith (getParam ps ''tbs'') ''cdr:1,cd_min:''
          then time (currentFilters (syncCustomDateRange utcOffset (getParam ps ''tbs'') w))
          else (case findKey timeFilters
                       (\<lambda>d. param d = Some (replaceFirst (getParam ps ''tbs'') ''qdr:'' [])) of
                  Some k \<Rightarrow> k
                | None \<Rightarrow> time (currentFilters w))
        else time (currentFilters w))"
    unfolding unfold using t5 by (simp add: f2)
qed

lemma match_two_years:
  "matchDateRange ''cdr:1,cd_min:1/15/2023,cd_max:1/10/2025'' =
     Some ((''1'', ''15'', ''2023''), (''1'', ''10'', ''2025''))"
  by code_simp

lemma match_one_year:
  "matchDateRange ''cdr:1,cd_min:1/15/2023,cd_max:1/15/2024'' =
     Some ((''1'', ''15'', ''2023''), (''1'', ''15'', ''2024''))"
  by code_simp

lemma dayNumber_examples:
  "dayNumber (''1'', ''15'', ''2023'') = 19372"
  "dayNumber (''1'', ''10'', ''2025'') = 20098"
  "dayNumber (''1'', ''15'', ''2024'') = 19737"
  by code_simp+

lemma example_pages:
  "isSearchPage (location twoYearState)"
  "isSearchPage (location oneYearState)"
  "isSearchPage (location hlMismatchState)"
  by (simp_all add: twoYearState_def oneYearState_def hlMismatchState_def isSearchPage_def)

text \<open>
  Claim C6. On a recognized results page, an address with
  \<open>tbs=cdr:1,cd_min:1/15/2023,cd_max:1/10/2025\<close> (726 days) sets the time filter to
  \<open>2year\<close>, and one with the range 1/15/2023 to 1/15/2024 (365 days) leaves it as it
  is. In general \<open>syncCustomDateRange\<close> changes nothing when the pattern of the date
  range does not match and otherwise sets the time filter to \<open>2year\<close> exactly when the
  span between the two parsed dates is at least 1.8 and at most 2.2 years of 365.25
  days; counted in calendar days that is a span of 658 to 803 days. The statements in
  days hold for every time zone whose offset from UTC differs between the two dates by
  less than 10.8 hours (38880000 ms).
\<close>

theorem two_year_detection:
  "(isSearchPage (location w) \<and>
    getParam (searchParams (href (location w))) ''tbs'' =
      ''cdr:1,cd_min:1/15/2023,cd_max:1/10/2025'' \<and>
    \<bar>utcOffset (dayNumber (''1'', ''10'', ''2025'')) -
     utcOffset (dayNumber (''1'', ''15'', ''2023''))\<bar> < 38880000 \<longrightarrow>
      time (currentFilters (syncFiltersFromURL utcOffset w)) = ''2year'') \<and>
   (isSearchPage (location w) \<and>
    getParam (searchParams (href (location w))) ''tbs'' =
      ''cdr:1,cd_min:1/15/2023,cd_max:1/15/2024'' \<and>
    \<bar>utcOffset (dayNumber (''1'', ''15'', ''2024'')) -
     utcOffset (dayNumber (''1'', ''15'', ''2023''))\<bar> < 38880000 \<longrightarrow>
      time (currentFilters (syncFiltersFromURL utcOffset w)) = time (currentFilters w)) \<and>
   (matchDateRange tbs = None \<longrightarrow> syncCustomDateRange utcOffset tbs w = w) \<and>
   (matchDateRange tbs = Some (minDate, maxDate) \<longrightarrow>
      syncCustomDateRange utcOffset tbs w =
        (if 1.8 \<le> yearsDiff (parseDate utcOffset minDate) (parseDate utcOffset maxDate) \<and>
            yearsDiff (parseDate utcOffset minDate) (parseDate utcOffset maxDate) \<le> 2.2
         then w\<lparr>currentFilters := (currentFilters w)\<lparr>time := ''2year''\<rparr>\<rparr> else w)) \<and>
   (matchDateRange tbs = Some (minDate, maxDate) \<and>
    \<bar>utcOffset (dayNumber maxDate) - utcOffset (dayNumber minDate)\<bar> < 38880000 \<longrightarrow>
      syncCustomDateRange utcOffset tbs w =
        (if 658 \<le> dayNumber maxDate - dayNumber minDate \<and>
            dayNumber maxDate - dayNumber minDate \<le> 803
         then w\<lparr>currentFilters := (currentFilters w)\<lparr>time := ''2year''\<rparr>\<rparr> else w))"
proof (intro conjI impI)
  assume a: "isSearchPage (location w) \<and>
    getParam (searchParams (href (location w))) ''tbs'' =
      ''cdr:1,cd_min:1/15/2023,cd_max:1/10/2025'' \<and>
    \<bar>utcOffset (dayNumber (''1'', ''10'', ''2025'')) -
     utcOffset (dayNumber (''1'', ''15'', ''2023''))\<bar> < 38880000"
  then have "syncCustomDateRange utcOffset ''cdr:1,cd_min:1/15/2023,cd_max:1/10/2025'' w =
               w\<lparr>currentFilters := (currentFilters w)\<lparr>time := ''2year''\<rparr>\<rparr>"
    using syncCustomDateRange_span [OF match_two_years, of utcOffset w]
    by (simp add: dayNumber_examples)
  then show "time (currentFilters (syncFiltersFromURL utcOffset w)) = ''2year''"
    using a by (simp add: sync_time startsWith_def)
next
  assume a: "isSearchPage (location w) \<and>
    getParam (searchParams (href (location w))) ''tbs'' =
      ''cdr:1,cd_min:1/15/2023,cd_max:1/15/2024'' \<and>
    \<bar>utcOffset (dayNumber (''1'', ''15'', ''2024'')) -
     utcOffset (dayNumber (''1'', ''15'', ''2023''))\<bar> < 38880000"
  then have "syncCustomDateRange utcOffset ''cdr:1,cd_min:1/15/2023,cd_max:1/15/2024'' w = w"
    using syncCustomDateRange_span [OF match_one_year, of utcOffset w]
    by (simp add: dayNumber_examples)
  then show "time (currentFilters (syncFiltersFromURL utcOffset w)) = time (currentFilters w)"
    using a by (simp add: sync_time startsWith_def)
next
  assume "matchDateRange tbs = None"
  then show "syncCustomDateRange utcOffset tbs w = w"
    by (simp add: syncCustomDateRange_def)
next
  assume "matchDateRange tbs = Some (minDate, maxDate)"
  then show "syncCustomDateRange utcOffset tbs w =
        (if 1.8 \<le> yearsDiff (parseDate utcOffset minDate) (parseDate utcOffset maxDate) \<and>
            yearsDiff (parseDate utcOffset minDate) (parseDate utcOffset maxDate) \<le> 2.2
         then w\<lparr>currentFilters := (currentFilters w)\<lparr>time := ''2year''\<rparr>\<rparr> else w)"
    by (simp add: syncCustomDateRange_def Let_def)
next
  assume "matchDateRange tbs = Some (minDate, maxDate) \<and>
    \<bar>utcOffset (dayNumber maxDate) - utcOffset (dayNumber minDate)\<bar> < 38880000"
  then show "syncCustomDateRange utcOffset tbs w =
        (if 658 \<le> dayNumber maxDate - dayNumber minDate \<and>
            dayNumber maxDate - dayNumber minDate \<le> 803
         then w\<lparr>currentFilters := (currentFilters w)\<lparr>time := ''2year''\<rparr>\<rparr> else w)"
    using syncCustomDateRange_span by blast
qed

theorem two_year_detection_witness:
  "time (currentFilters twoYearState) = ''all'' \<and>
   time (currentFilters (syncFiltersFromURL (\<lambda>d. 0) twoYearState)) = ''2year'' \<and>
   time (currentFilters (syncFiltersFromURL (\<lambda>d. 0) oneYearState)) = ''all''"
  using two_year_detection [of twoYearState "\<lambda>d. 0"] two_year_detection [of oneYearState "\<lambda>d. 0"]
    example_pages
  by (simp add: twoYearState_def oneYearState_def getParam_def)

text \<open>
  Claim C5, as the code has it. For every starting state and every address:
  \<^item> \<open>hl\<close> (\<open>gl\<close>) absent or empty leaves the interface language (the region) as it
    was, but a value that is the external code of no definition sets it to \<open>auto\<close>;
  \<^item> a query \<open>q\<close> that holds the fragment of no site leaves the site as it was;
  \<^item> \<open>lr\<close> absent or empty, or with a code (after removing \<open>lang_\<close>) that is no
    property of the result-language table, leaves the result language as it was;
  \<^item> \<open>tbs\<close> absent or empty, or outside the date-range form and equal to the parameter
    of no time definition (after removing \<open>qdr:\<close>), or of the date-range form without a
    date range that matches, leaves the time filter as it was;
  \<^item> off a results page the site, the result language and the time filter are as they
    were.
\<close>

theorem syncFiltersFromURL_unrecognized:
  "(getParam (searchParams (href (location w))) ''hl'' = [] \<longrightarrow>
      interfaceLang (currentFilters (syncFiltersFromURL utcOffset w)) =
        interfaceLang (currentFilters w)) \<and>
   (getParam (searchParams (href (location w))) ''hl'' \<noteq> [] \<and>
    \<not> list_ex (\<lambda>kd. googleLang (snd kd) =
                      Some (getParam (searchParams (href (location w))) ''hl''))
         interfaceLangFilters \<longrightarrow>
      interfaceLang (currentFilters (syncFiltersFromURL utcOffset w)) = ''auto'') \<and>
   (getParam (searchParams (href (location w))) ''gl'' = [] \<longrightarrow>
      region (currentFilters (syncFiltersFromURL utcOffset w)) = region (currentFilters w)) \<and>
   (getParam (searchParams (href (location w))) ''gl'' \<noteq> [] \<and>
    \<not> list_ex (\<lambda>kd. googleRegion (snd kd) =
                      Some (getParam (searchParams (href (location w))) ''gl''))
         regionFilters \<longrightarrow>
      region (currentFilters (syncFiltersFromURL utcOffset w)) = ''auto'') \<and>
   (\<not> list_ex (\<lambda>kd. case query (snd kd) of
                      None \<Rightarrow> False
                    | Some sq \<Rightarrow> sq \<noteq> [] \<and>
                        str_includes (getParam (searchParams (href (location w))) ''q'') sq)
        (siteFilters w) \<longrightarrow>
      site (currentFilters (syncFiltersFromURL utcOffset w)) = site (currentFilters w)) \<and>
   (getParam (searchParams (href (location w))) ''lr'' = [] \<or>
    getProperty searchLangFilters
      (replaceFirst (getParam (searchParams (href (location w))) ''lr'') ''lang_'' []) =
      Undefined \<longrightarrow>
      searchLang (currentFilters (syncFiltersFromURL utcOffset w)) =
        searchLang (currentFilters w)) \<and>
   (getParam (searchParams (href (location w))) ''tbs'' = [] \<or>
    (\<not> startsWith (getParam (searchParams (href (location w))) ''tbs'') ''cdr:1,cd_min:'' \<and>
     \<not> list_ex (\<lambda>kd. param (snd kd) =
                       Some (replaceFirst (getParam (searchParams (href (location w))) ''tbs'')
                               ''qdr:'' []))
          timeFilters) \<or>
    (startsWith (getParam (searchParams (href (location w))) ''tbs'') ''cdr:1,cd_min:'' \<and>
     matchDateRange (getParam (searchParams (href (location w))) ''tbs'') = None) \<longrightarrow>
      time (currentFilters (syncFiltersFromURL utcOffset w)) = time (currentFilters w)) \<and>
   (\<not> isSearchPage (location w) \<longrightarrow>
      site (currentFilters (syncFiltersFromURL utcOffset w)) = site (currentFilters w) \<and>
      searchLang (currentFilters (syncFiltersFromURL utcOffset w)) =
        searchLang (currentFilters w) \<and>
      time (currentFilters (syncFiltersFromURL utcOffset w)) = time (currentFilters w))"
proof -
  have none: "\<And>tbl P. \<not> list_ex (\<lambda>kd. P (snd kd)) tbl \<Longrightarrow> findKey tbl P = None"
    by (auto simp: findKey_def find_None_iff list_ex_iff)
  show ?thesis
    by (auto simp: sync_interfaceLang sync_region sync_site sync_searchLang sync_time Let_def
          syncCustomDateRange_def dest!: none)
qed

theorem syncFiltersFromURL_unrecognized_witness:
  "interfaceLang (currentFilters (syncFiltersFromURL (\<lambda>d. 0) hlMismatchState)) = ''auto'' \<and>
   region (currentFilters (syncFiltersFromURL (\<lambda>d. 0) hlMismatchState)) = ''auto'' \<and>
   site (currentFilters (syncFiltersFromURL (\<lambda>d. 0) hlMismatchState)) = ''all'' \<and>
   searchLang (currentFilters (syncFiltersFromURL (\<lambda>d. 0) hlMismatchState)) = ''tr'' \<and>
   time (currentFilters (syncFiltersFromURL (\<lambda>d. 0) hlMismatchState)) = ''all''"
  using syncFiltersFromURL_unrecognized [of hlMismatchState "\<lambda>d. 0"]
  by (simp add: hlMismatchState_def getParam_def interfaceLangFilters_def entry_def
        defaultSiteFilters_def siteEntry_def)

text \<open>
  The claim as stated fails: with the Turkish interface selected, an address with
  \<open>hl=xx\<close>, the code of no definition, leaves \<open>auto\<close> selected.
\<close>

theorem syncFiltersFromURL_counterexample:
  "getParam (searchParams (href (location hlMismatchState))) ''hl'' = ''xx'' \<and>
   \<not> list_ex (\<lambda>kd. googleLang (snd kd) = Some ''xx'') interfaceLangFilters \<and>
   interfaceLang (currentFilters hlMismatchState) = ''tr'' \<and>
   interfaceLang (currentFilters (syncFiltersFromURL (\<lambda>d. 0) hlMismatchState)) = ''auto''"
  by (simp add: sync_interfaceLang hlMismatchState_def getParam_def interfaceLangFilters_def
        entry_def findKey_def)

section \<open>The round trip of an address\<close>

lemma map_of_setParam: "map_of (setParam ps p v) k = (if k = p then Some v else map_of ps k)"
  by (induction ps p v rule: setParam.induct) (auto simp: map_of_filter_other map_of_filter_key)

lemma getParam_setParam [simp]:
  "getParam (setParam ps p v) k = (if k = p then v else getParam ps k)"
  by (simp add: getParam_def map_of_setParam)

lemma getParam_deleteParam [simp]:
  "getParam (deleteParam ps p) k = (if k = p then [] else getParam ps k)"
  by (simp add: getParam_def deleteParam_def map_of_filter_other map_of_filter_key)





lemma siteQueriesTrimmed_selected:
  assumes "siteQueriesTrimmed sites"
  shows "selectedFragmentTrimmed sites cf"
proof (cases "map_of sites (site cf)")
  case None
  then show ?thesis by (simp add: selectedFragmentTrimmed_def)
next
  case (Some d)
  then have "(site cf, d) \<in> set sites"
    by (rule map_of_SomeD)
  with assms have "case query d of None \<Rightarrow> True | Some sq \<Rightarrow> trim sq = sq"
    by (auto simp: siteQueriesTrimmed_def list_all_iff)
  with Some show ?thesis by (simp add: selectedFragmentTrimmed_def)
qed








text \<open>
  The hypothesis on the fragment holds of every site of the built-in catalogue, and
  \<open>addCustomSite\<close> and \<open>removeCustomSite\<close> keep it so, whatever the answers of the
  user are. \<open>loadCustomSites\<close>, which is not modelled here, takes the \<open>query\<close> of a
  stored entry over as it is.
\<close>

lemma siteQueriesTrimmed_default: "siteQueriesTrimmed defaultSiteFilters"
  by (simp add: siteQueriesTrimmed_def defaultSiteFilters_def siteEntry_def entry_def trim_def
        isWhiteSpace_def)

lemma trim_site_fragment:
  assumes "trim x \<noteq> []"
  shows "trim (''site:'' @ trim x) = ''site:'' @ trim x"
proof -
  have "trimmed (trim x)" by (rule trimmed_trim)
  with assms have "trimmed (''site:'' @ trim x)"
    by (simp add: trimmed_def isWhiteSpace_def)
  then show ?thesis by (rule trim_trimmed)
qed

lemma siteQueriesTrimmed_addCustomSite:
  assumes "siteQueriesTrimmed (siteFilters w)"
  shows "siteQueriesTrimmed (siteFilters (addCustomSite stringify promptName promptUrl w))"
proof (cases "isValidURL promptUrl")
  case False
  then show ?thesis
    using assms by (simp add: addCustomSite_def Let_def split: option.split)
next
  case True
  then obtain d where d: "promptUrl = Some d"
    by (cases promptUrl) (simp_all add: isValidURL_def isValidNonEmptyString_def)
  from True d have ne: "trim (stripPath (stripScheme d)) \<noteq> []"
    and c: "cleanURLDomain promptUrl = trim (stripPath (stripScheme d))"
    by (simp_all add: isValidURL_def cleanURLDomain_def Let_def split: if_splits)
  have "trim (''site:'' @ cleanURLDomain promptUrl) = ''site:'' @ cleanURLDomain promptUrl"
    unfolding c using ne by (rule trim_site_fragment)
  then show ?thesis
    using assms
    by (simp add: addCustomSite_def Let_def siteQueriesTrimmed_def siteEntry_def entry_def
          split: option.split)
qed

lemma siteQueriesTrimmed_removeCustomSite:
  assumes "siteQueriesTrimmed (siteFilters w)"
  shows "siteQueriesTrimmed (siteFilters (removeCustomSite stringify confirmed siteKey w))"
  using assms
  by (simp add: removeCustomSite_def Let_def siteQueriesTrimmed_def list_all_iff)

end
